theory Spec2Isabelle
  imports Main
begin

section \<open>Fixed-size dense linear algebra\<close>

text \<open>
  The C++ sources work on Eigen matrices whose dimensions are template parameters
  (\<open>STATE_DIM\<close>, \<open>CONTROL_DIM\<close>).  A matrix is a list of rows; every operation takes
  the dimensions that the C++ type carries as explicit arguments and builds its result
  coefficient by coefficient.  In the transcription of the problem and in the
  controllability and observability matrices the scalars are elements of a commutative
  ring.  The Gramian iterations are written over the bare operations of their scalar type,
  without any law of arithmetic: they can be read over a ring, where the arithmetic is
  exact, and over the type \<open>double\<close> below, where every operation rounds.
\<close>

type_synonym 'a vec = "'a list"
type_synonym 'a mat = "'a list list"

definition mk_vec :: "nat \<Rightarrow> (nat \<Rightarrow> 'a) \<Rightarrow> 'a vec" where
  "mk_vec n f = map f [0..<n]"

definition mk_mat :: "nat \<Rightarrow> nat \<Rightarrow> (nat \<Rightarrow> nat \<Rightarrow> 'a) \<Rightarrow> 'a mat" where
  "mk_mat r c f = map (\<lambda>i. map (f i) [0..<c]) [0..<r]"


definition is_mat :: "nat \<Rightarrow> nat \<Rightarrow> 'a mat \<Rightarrow> bool" where
  "is_mat r c M = (length M = r \<and> list_all (\<lambda>row. length row = c) M)"

definition Zero_vec :: "nat \<Rightarrow> ('a::zero) vec" where
  "Zero_vec n = mk_vec n (\<lambda>i. 0)"

definition Zero_mat :: "nat \<Rightarrow> nat \<Rightarrow> ('a::zero) mat" where
  "Zero_mat r c = mk_mat r c (\<lambda>i j. 0)"

definition Identity :: "nat \<Rightarrow> ('a::zero_neq_one) mat" where
  "Identity n = mk_mat n n (\<lambda>i j. if i = j then 1 else 0)"

definition vadd :: "nat \<Rightarrow> ('a::comm_ring_1) vec \<Rightarrow> 'a vec \<Rightarrow> 'a vec" where
  "vadd n x y = mk_vec n (\<lambda>i. x ! i + y ! i)"

definition vsub :: "nat \<Rightarrow> ('a::comm_ring_1) vec \<Rightarrow> 'a vec \<Rightarrow> 'a vec" where
  "vsub n x y = mk_vec n (\<lambda>i. x ! i - y ! i)"

definition madd :: "nat \<Rightarrow> nat \<Rightarrow> ('a::plus) mat \<Rightarrow> 'a mat \<Rightarrow> 'a mat" where
  "madd r c X Y = mk_mat r c (\<lambda>i j. X ! i ! j + Y ! i ! j)"

definition msub :: "nat \<Rightarrow> nat \<Rightarrow> ('a::minus) mat \<Rightarrow> 'a mat \<Rightarrow> 'a mat" where
  "msub r c X Y = mk_mat r c (\<lambda>i j. X ! i ! j - Y ! i ! j)"

text \<open>\<open>mmul r k c X Y\<close> is the product of the \<open>r \<times> k\<close> matrix \<open>X\<close> and the
  \<open>k \<times> c\<close> matrix \<open>Y\<close>.\<close>

definition mmul :: "nat \<Rightarrow> nat \<Rightarrow> nat \<Rightarrow> ('a::comm_ring_1) mat \<Rightarrow> 'a mat \<Rightarrow> 'a mat" where
  "mmul r k c X Y = mk_mat r c (\<lambda>i j. \<Sum>l<k. X ! i ! l * Y ! l ! j)"

text \<open>\<open>mat_vec r c X v\<close> is the product of the \<open>r \<times> c\<close> matrix \<open>X\<close> and the vector
  \<open>v\<close> of size \<open>c\<close>.\<close>

definition mat_vec :: "nat \<Rightarrow> nat \<Rightarrow> ('a::comm_ring_1) mat \<Rightarrow> 'a vec \<Rightarrow> 'a vec" where
  "mat_vec r c X v = mk_vec r (\<lambda>i. \<Sum>l<c. X ! i ! l * v ! l)"

text \<open>\<open>transpose_mat r c X\<close> is the transpose of the \<open>r \<times> c\<close> matrix \<open>X\<close>.\<close>

definition transpose_mat :: "nat \<Rightarrow> nat \<Rightarrow> 'a mat \<Rightarrow> 'a mat" where
  "transpose_mat r c X = mk_mat c r (\<lambda>i j. X ! j ! i)"

text \<open>The \<open>k\<close>-th power of the \<open>n \<times> n\<close> matrix \<open>X\<close>.\<close>

primrec mpow :: "nat \<Rightarrow> ('a::comm_ring_1) mat \<Rightarrow> nat \<Rightarrow> 'a mat" where
  "mpow n X 0 = Identity n"
| "mpow n X (Suc k) = mmul n n n (mpow n X k) X"

subsection \<open>Errors\<close>

datatype error =
    RuntimeError string   \<comment> \<open>\<open>throw std::runtime_error(msg)\<close>\<close>
  | LengthError           \<comment> \<open>\<open>std::vector::resize\<close> with a size beyond \<open>max_size()\<close>\<close>
  | BlockOutOfRange       \<comment> \<open>Eigen's range assertion on a \<open>block\<close> expression\<close>
  | IllFormed             \<comment> \<open>a member function that is ill-formed when it is instantiated\<close>

subsection \<open>Block expressions\<close>

text \<open>
  \<open>X.block<br, bc>(r0, c0)\<close> of a matrix \<open>X\<close> with \<open>R\<close> rows and \<open>C\<close> columns.
  Eigen asserts \<open>r0 + br \<le> R\<close> and \<open>c0 + bc \<le> C\<close> when the block expression is
  built; a block that leaves the matrix is the error \<open>BlockOutOfRange\<close>.
\<close>

definition block_ok :: "nat \<Rightarrow> nat \<Rightarrow> nat \<Rightarrow> nat \<Rightarrow> nat \<Rightarrow> nat \<Rightarrow> bool" where
  "block_ok R C br bc r0 c0 = (r0 + br \<le> R \<and> c0 + bc \<le> C)"

definition block_read ::
  "nat \<Rightarrow> nat \<Rightarrow> nat \<Rightarrow> nat \<Rightarrow> nat \<Rightarrow> nat \<Rightarrow> 'a mat \<Rightarrow> error + 'a mat" where
  "block_read R C br bc r0 c0 X =
     (if block_ok R C br bc r0 c0
      then Inr (mk_mat br bc (\<lambda>i j. X ! (r0 + i) ! (c0 + j)))
      else Inl BlockOutOfRange)"

definition block_write ::
  "nat \<Rightarrow> nat \<Rightarrow> nat \<Rightarrow> nat \<Rightarrow> nat \<Rightarrow> nat \<Rightarrow> 'a mat \<Rightarrow> 'a mat \<Rightarrow> error + 'a mat" where
  "block_write R C br bc r0 c0 X V =
     (if block_ok R C br bc r0 c0
      then Inr (mk_mat R C (\<lambda>i j.
             if r0 \<le> i \<and> i < r0 + br \<and> c0 \<le> j \<and> j < c0 + bc
             then V ! (i - r0) ! (j - c0) else X ! i ! j))
      else Inl BlockOutOfRange)"

section \<open>LTISystem\<close>

datatype TIME_TYPE = CONTINUOUS_TIME | DISCRETE_TIME

record 'a LTISystem =
  sys_A :: "'a mat"
  sys_B :: "'a mat"
  sys_C :: "'a mat"
  sys_D :: "'a mat"

text \<open>The constructor without arguments: all four matrices are set to zero.\<close>

definition LTISystem_default :: "nat \<Rightarrow> nat \<Rightarrow> ('a::comm_ring_1) LTISystem" where
  "LTISystem_default n m =
     \<lparr> sys_A = Zero_mat n n, sys_B = Zero_mat n m, sys_C = Zero_mat n n, sys_D = Zero_mat n m \<rparr>"

text \<open>The constructor with all four matrices given.\<close>

definition LTISystem_ABCD ::
  "'a mat \<Rightarrow> 'a mat \<Rightarrow> 'a mat \<Rightarrow> 'a mat \<Rightarrow> 'a LTISystem" where
  "LTISystem_ABCD A B C D = \<lparr> sys_A = A, sys_B = B, sys_C = C, sys_D = D \<rparr>"

text \<open>The same constructor called with \<open>A\<close> and \<open>B\<close> only: \<open>C\<close> and \<open>D\<close> take their
  default arguments \<open>state_matrix_t::Identity()\<close> and \<open>state_control_matrix_t::Zero()\<close>.\<close>

definition LTISystem_AB ::
  "nat \<Rightarrow> nat \<Rightarrow> ('a::comm_ring_1) mat \<Rightarrow> 'a mat \<Rightarrow> 'a LTISystem" where
  "LTISystem_AB n m A B = LTISystem_ABCD A B (Identity n) (Zero_mat n m)"

text \<open>\<open>computeOutput\<close> throws before it touches its output argument.\<close>

definition computeOutput ::
  "'a LTISystem \<Rightarrow> 's \<Rightarrow> 't \<Rightarrow> 'a vec \<Rightarrow> 'a vec \<Rightarrow> error + 'a vec" where
  "computeOutput sys state tn control output =
     Inl (RuntimeError ''LTISystem: computeOutput() not ported to manifolds yet.'')"

subsection \<open>Controllability and observability matrices\<close>

text \<open>
  \<open>computeControllabilityMatrix\<close>.  Its statements are
  \<open>CO.block<STATE_DIM, CONTROL_DIM>(0, 0) = B_\<close> and, in the loop,
  \<open>CO.block<STATE_DIM, CONTROL_DIM>(0, i * CONTROL_DIM) = A_ * CO.block<STATE_DIM, CONTROL_DIM>(0, (i - 1) * CONTROL_DIM)\<close>.
  The type of \<open>CO\<close> depends on the template parameters of the class and the member name
  \<open>block\<close> is not preceded by the keyword \<open>template\<close> (as \<open>lpNorm\<close> is in the Gramian
  functions, \<open>.template lpNorm<1>()\<close>).  So \<open>block\<close> is taken for a member that is no
  template, \<open><\<close> and \<open>>\<close> are the relational operators, and the first statement is the
  comma expression \<open>(CO.block < STATE_DIM), (CONTROL_DIM > (0, 0) = B_)\<close>: a comparison
  with a member function and an assignment to the value of a comparison.  The member
  function is ill-formed whenever it is instantiated; a program that calls it, or calls
  \<open>isControllable\<close>, is not translated, and no matrix is produced for any argument.
\<close>

definition computeControllabilityMatrix ::
  "nat \<Rightarrow> nat \<Rightarrow> 'a LTISystem \<Rightarrow> 'a mat \<Rightarrow> error + 'a mat" where
  "computeControllabilityMatrix n m sys CO = Inl IllFormed"

text \<open>
  \<open>computeObservabilityMatrix\<close> works on the \<open>n \<times> (n * n)\<close> matrix \<open>O\<close>: block
  \<open>(0, 0)\<close> is \<open>C\<close>; in iteration \<open>i\<close> the block read is \<open>(0, (i - 1) * n)\<close> and the
  block written is \<open>(i * n, 0)\<close>.  Its block expressions lack the keyword \<open>template\<close>
  too; they are read here as the block expressions they are meant to be.
\<close>

fun ob_loop ::
  "nat \<Rightarrow> ('a::comm_ring_1) mat \<Rightarrow> nat \<Rightarrow> nat \<Rightarrow> 'a mat \<Rightarrow> error + 'a mat" where
  "ob_loop n A 0 i Ob = Inr Ob"
| "ob_loop n A (Suc k) i Ob =
     (case block_read n (n * n) n n 0 ((i - 1) * n) Ob of
        Inl e \<Rightarrow> Inl e
      | Inr prev \<Rightarrow>
          (case block_write n (n * n) n n (i * n) 0 Ob (mmul n n n prev A) of
             Inl e \<Rightarrow> Inl e
           | Inr Ob' \<Rightarrow> ob_loop n A k (Suc i) Ob'))"

definition computeObservabilityMatrix ::
  "nat \<Rightarrow> ('a::comm_ring_1) LTISystem \<Rightarrow> 'a mat \<Rightarrow> error + 'a mat" where
  "computeObservabilityMatrix n sys Ob =
     (case block_write n (n * n) n n 0 0 Ob (sys_C sys) of
        Inl e \<Rightarrow> Inl e
      | Inr Ob' \<Rightarrow> ob_loop n (sys_A sys) (n - 1) 1 Ob')"


subsection \<open>Rank tests\<close>

text \<open>
  \<open>isControllable\<close> and \<open>isObservable\<close> compare the rank of the matrix with the state
  dimension.  The rank is \<open>Eigen::FullPivLU::rank()\<close>, a function of the Eigen library; it
  is the argument \<open>rank_of\<close> of the two tests.  The matrix that each test declares locally
  is not initialised; its content before the call is the last argument.
\<close>

definition isControllable ::
  "('a mat \<Rightarrow> nat) \<Rightarrow> nat \<Rightarrow> nat \<Rightarrow> 'a LTISystem \<Rightarrow> 'a mat \<Rightarrow> error + bool" where
  "isControllable rank_of n m sys CO =
     (case computeControllabilityMatrix n m sys CO of
        Inl e \<Rightarrow> Inl e
      | Inr CO' \<Rightarrow> Inr (rank_of CO' = n))"

definition isObservable ::
  "('a mat \<Rightarrow> nat) \<Rightarrow> nat \<Rightarrow> ('a::comm_ring_1) LTISystem \<Rightarrow> 'a mat \<Rightarrow> error + bool" where
  "isObservable rank_of n sys Ob =
     (case computeObservabilityMatrix n sys Ob of
        Inl e \<Rightarrow> Inl e
      | Inr Ob' \<Rightarrow> Inr (rank_of Ob' = n))"

text \<open>The block matrix \<open>[B, AB, A\<^sup>2B, \<dots>, A\<^bsup>n-1\<^esup>B]\<close> and the stack of the blocks
  \<open>C A\<^bsup>i\<^esup>\<close>, written coefficient by coefficient.\<close>

definition controllability_blocks :: "nat \<Rightarrow> nat \<Rightarrow> ('a::comm_ring_1) mat \<Rightarrow> 'a mat \<Rightarrow> 'a mat" where
  "controllability_blocks n m A B =
     mk_mat n (n * m) (\<lambda>i j. mmul n n m (mpow n A (j div m)) B ! i ! (j mod m))"

definition observability_stack :: "nat \<Rightarrow> ('a::comm_ring_1) mat \<Rightarrow> 'a mat \<Rightarrow> 'a mat" where
  "observability_stack n A C =
     mk_mat (n * n) n (\<lambda>i j. mmul n n n C (mpow n A (i div n)) ! (i mod n) ! j)"

text \<open>A discrete-time double integrator (state dimension 2, control dimension 1), built
  from \<open>A\<close> and \<open>B\<close> alone.\<close>

definition example_system :: "int LTISystem" where
  "example_system = LTISystem_AB 2 1 [[1, 1], [0, 1]] [[0], [1]]"

subsection \<open>Gramians\<close>

text \<open>
  The Gramian functions compute with sums and products of matrices of \<open>double\<close>.  Their
  operations are written over the bare \<open>+\<close>, \<open>-\<close>, \<open>*\<close>, \<open>\<bar>\<cdot>\<bar>\<close> and \<open><\<close> of the scalar
  type and use no law of arithmetic.  \<open>fsum f k\<close> accumulates \<open>f 0, \<dots>, f (k - 1)\<close> in
  this order; \<open>mprod r k c X Y\<close> is the product of an \<open>r \<times> k\<close> and a \<open>k \<times> c\<close> matrix,
  every coefficient accumulated in the order of the inner index.  \<open>lpNorm1\<close> is Eigen's
  \<open>lpNorm<1>()\<close>: the sum of the absolute values of all coefficients of the matrix, taken
  here in the order of storage (column by column).  It is not the induced norm of the
  matrix.  The order of accumulation matters only where the scalar operations round.
\<close>

primrec fsum :: "(nat \<Rightarrow> 'a::{zero,plus}) \<Rightarrow> nat \<Rightarrow> 'a" where
  "fsum f 0 = 0"
| "fsum f (Suc k) = fsum f k + f k"

definition mprod :: "nat \<Rightarrow> nat \<Rightarrow> nat \<Rightarrow> ('a::{zero,plus,times}) mat \<Rightarrow> 'a mat \<Rightarrow> 'a mat" where
  "mprod r k c X Y = mk_mat r c (\<lambda>i j. fsum (\<lambda>l. X ! i ! l * Y ! l ! j) k)"

definition lpNorm1 :: "nat \<Rightarrow> nat \<Rightarrow> ('a::{zero,plus,abs}) mat \<Rightarrow> 'a" where
  "lpNorm1 r c X = fsum (\<lambda>t. \<bar>X ! (t mod r) ! (t div r)\<bar>) (r * c)"

text \<open>The summand that one pass of the loop adds to the controllability Gramian,
  \<open>A_prev * B_ * B_.transpose() * A_prev.transpose()\<close>, and the one for the observability
  Gramian, \<open>A_prev.transpose() * C_.transpose() * C_ * A_prev\<close>.\<close>

definition cg_summand ::
  "nat \<Rightarrow> nat \<Rightarrow> ('a::{zero,plus,times}) mat \<Rightarrow> 'a mat \<Rightarrow> 'a mat" where
  "cg_summand n m A_prev B =
     mprod n n n (mprod n m n (mprod n n m A_prev B) (transpose_mat n m B))
       (transpose_mat n n A_prev)"

definition og_summand :: "nat \<Rightarrow> ('a::{zero,plus,times}) mat \<Rightarrow> 'a mat \<Rightarrow> 'a mat" where
  "og_summand n A_prev C =
     mprod n n n (mprod n n n (mprod n n n (transpose_mat n n A_prev) (transpose_mat n n C)) C)
       A_prev"

text \<open>The \<open>while\<close> loop of the discrete-time \<open>computeControllabilityGramian\<close>, on the
  variables \<open>CG_prev\<close>, \<open>CG\<close>, \<open>A_prev\<close> and \<open>n_iters\<close>; its value is the \<open>CG\<close> returned.\<close>

function cg_loop ::
  "nat \<Rightarrow> nat \<Rightarrow> ('a::{zero_neq_one,plus,minus,times,abs,ord}) mat \<Rightarrow> 'a mat \<Rightarrow> nat \<Rightarrow> 'a
     \<Rightarrow> 'a mat \<Rightarrow> 'a mat \<Rightarrow> 'a mat \<Rightarrow> nat \<Rightarrow> 'a mat" where
  "cg_loop n m A B max_iters tolerance CG_prev CG A_prev n_iters =
     (if n_iters < max_iters then
        (let CG1 = madd n n CG_prev (cg_summand n m A_prev B);
             norm1 = lpNorm1 n n (msub n n CG_prev CG1)
         in if norm1 < tolerance then CG1
            else cg_loop n m A B max_iters tolerance CG1 CG1 (mprod n n n A_prev A) (Suc n_iters))
      else CG)"
  by pat_completeness auto
termination
  by (relation "measure (\<lambda>(n, m, A, B, max_iters, tolerance, CG_prev, CG, A_prev, n_iters).
                  max_iters - n_iters)") auto

function og_loop ::
  "nat \<Rightarrow> ('a::{zero_neq_one,plus,minus,times,abs,ord}) mat \<Rightarrow> 'a mat \<Rightarrow> nat \<Rightarrow> 'a
     \<Rightarrow> 'a mat \<Rightarrow> 'a mat \<Rightarrow> 'a mat \<Rightarrow> nat \<Rightarrow> 'a mat" where
  "og_loop n A C max_iters tolerance OG_prev OG A_prev n_iters =
     (if n_iters < max_iters then
        (let OG1 = madd n n OG_prev (og_summand n A_prev C);
             norm1 = lpNorm1 n n (msub n n OG_prev OG1)
         in if norm1 < tolerance then OG1
            else og_loop n A C max_iters tolerance OG1 OG1 (mprod n n n A_prev A) (Suc n_iters))
      else OG)"
  by pat_completeness auto
termination
  by (relation "measure (\<lambda>(n, A, C, max_iters, tolerance, OG_prev, OG, A_prev, n_iters).
                  max_iters - n_iters)") auto

text \<open>The two overloads of each Gramian function are selected by the template argument
  \<open>CONT_T\<close>; the continuous-time one throws.\<close>

definition computeControllabilityGramian ::
  "TIME_TYPE \<Rightarrow> nat \<Rightarrow> nat \<Rightarrow> ('a::{zero_neq_one,plus,minus,times,abs,ord}) LTISystem \<Rightarrow> nat \<Rightarrow> 'a
     \<Rightarrow> error + 'a mat" where
  "computeControllabilityGramian CONT_T n m sys max_iters tolerance =
     (case CONT_T of
        DISCRETE_TIME \<Rightarrow>
          Inr (cg_loop n m (sys_A sys) (sys_B sys) max_iters tolerance
                 (Zero_mat n n) (Zero_mat n n) (Identity n) 0)
      | CONTINUOUS_TIME \<Rightarrow>
          Inl (RuntimeError
            ''Computation of controllability Gramian not implemented for continuous-time systems yet.''))"

definition computeObservabilityGramian ::
  "TIME_TYPE \<Rightarrow> nat \<Rightarrow> ('a::{zero_neq_one,plus,minus,times,abs,ord}) LTISystem \<Rightarrow> nat \<Rightarrow> 'a
     \<Rightarrow> error + 'a mat" where
  "computeObservabilityGramian CONT_T n sys max_iters tolerance =
     (case CONT_T of
        DISCRETE_TIME \<Rightarrow>
          Inr (og_loop n (sys_A sys) (sys_C sys) max_iters tolerance
                 (Zero_mat n n) (Zero_mat n n) (Identity n) 0)
      | CONTINUOUS_TIME \<Rightarrow>
          Inl (RuntimeError
            ''Computation of observability Gramian not implemented for continuous-time systems yet.''))"










text \<open>
  The closed forms over a commutative ring: \<open>partial_sum n T K\<close> is the sum of the matrices
  \<open>T 0, \<dots>, T (K - 1)\<close>; \<open>reach_term\<close> is \<open>A\<^bsup>k\<^esup> B B\<^sup>T (A\<^bsup>k\<^esup>)\<^sup>T\<close> and \<open>observe_term\<close> is
  \<open>(A\<^bsup>k\<^esup>)\<^sup>T C\<^sup>T C A\<^bsup>k\<^esup>\<close>.
\<close>

definition partial_sum :: "nat \<Rightarrow> (nat \<Rightarrow> ('a::comm_ring_1) mat) \<Rightarrow> nat \<Rightarrow> 'a mat" where
  "partial_sum n T K = mk_mat n n (\<lambda>i j. \<Sum>k<K. T k ! i ! j)"





definition symmetric :: "nat \<Rightarrow> 'a mat \<Rightarrow> bool" where
  "symmetric n G = (\<forall>i<n. \<forall>j<n. G ! i ! j = G ! j ! i)"


section \<open>The arithmetic of double\<close>

text \<open>
  The scalar type of the Gramian functions is the C++ \<open>double\<close>.  Its arithmetic is not
  part of the sources; it is that of IEEE 754 binary64 and is modelled here.  A finite
  value is \<open>Finite m e\<close>, the number \<open>m * 2\<^bsup>e\<^esup>\<close> with \<open>m\<close> odd, or \<open>Finite 0 0\<close>; zero has no
  sign here (the sign of a zero changes no sum, difference, product or comparison).  A
  sum or product is the exact result rounded to the nearest value with 53 significant
  bits and least exponent \<open>-1074\<close>, ties to the even significand; a result of magnitude
  \<open>2\<^bsup>1024\<^esup>\<close> or more after rounding is an infinity.  Every operation rounds on its own
  (no fused multiply-add).
\<close>

datatype double = Finite int int | PlusInf | MinusInf | NaN

function bitlen :: "int \<Rightarrow> int" where
  "bitlen x = (if 0 < x then bitlen (x div 2) + 1 else 0)"
  by pat_completeness auto
termination
  by (relation "measure nat") auto

function normal_form :: "int \<Rightarrow> int \<Rightarrow> double" where
  "normal_form m e =
     (if m = 0 then Finite 0 0
      else if even m then normal_form (m div 2) (e + 1)
      else Finite m e)"
  by pat_completeness auto
termination
  by (relation "measure (\<lambda>(m, e). nat \<bar>m\<bar>)") (auto elim!: evenE)

definition round_half_even :: "int \<Rightarrow> int \<Rightarrow> int" where
  "round_half_even m d =
     (let q = m div d; r = m mod d
      in if 2 * r < d then q
         else if d < 2 * r then q + 1
         else if even q then q else q + 1)"

definition round_to_double :: "int \<Rightarrow> int \<Rightarrow> double" where
  "round_to_double m e =
     (if m = 0 then Finite 0 0
      else
        let q = max (e + bitlen \<bar>m\<bar> - 53) (- 1074);
            m' = (if q \<le> e then m * 2 ^ nat (e - q) else round_half_even m (2 ^ nat (q - e)))
        in if 1024 < bitlen \<bar>m'\<bar> + q then (if 0 < m then PlusInf else MinusInf)
           else normal_form m' q)"

fun dadd :: "double \<Rightarrow> double \<Rightarrow> double" where
  "dadd NaN y = NaN"
| "dadd x NaN = NaN"
| "dadd PlusInf MinusInf = NaN"
| "dadd MinusInf PlusInf = NaN"
| "dadd PlusInf y = PlusInf"
| "dadd x PlusInf = PlusInf"
| "dadd MinusInf y = MinusInf"
| "dadd x MinusInf = MinusInf"
| "dadd (Finite m1 e1) (Finite m2 e2) =
     (let e = min e1 e2
      in round_to_double (m1 * 2 ^ nat (e1 - e) + m2 * 2 ^ nat (e2 - e)) e)"

fun dneg :: "double \<Rightarrow> double" where
  "dneg (Finite m e) = Finite (- m) e"
| "dneg PlusInf = MinusInf"
| "dneg MinusInf = PlusInf"
| "dneg NaN = NaN"

fun dmul :: "double \<Rightarrow> double \<Rightarrow> double" where
  "dmul NaN y = NaN"
| "dmul x NaN = NaN"
| "dmul (Finite m1 e1) (Finite m2 e2) = round_to_double (m1 * m2) (e1 + e2)"
| "dmul (Finite m e) PlusInf = (if m = 0 then NaN else if 0 < m then PlusInf else MinusInf)"
| "dmul (Finite m e) MinusInf = (if m = 0 then NaN else if 0 < m then MinusInf else PlusInf)"
| "dmul PlusInf (Finite m e) = (if m = 0 then NaN else if 0 < m then PlusInf else MinusInf)"
| "dmul MinusInf (Finite m e) = (if m = 0 then NaN else if 0 < m then MinusInf else PlusInf)"
| "dmul PlusInf PlusInf = PlusInf"
| "dmul MinusInf MinusInf = PlusInf"
| "dmul PlusInf MinusInf = MinusInf"
| "dmul MinusInf PlusInf = MinusInf"

fun dabs :: "double \<Rightarrow> double" where
  "dabs (Finite m e) = Finite \<bar>m\<bar> e"
| "dabs PlusInf = PlusInf"
| "dabs MinusInf = PlusInf"
| "dabs NaN = NaN"

fun dless :: "double \<Rightarrow> double \<Rightarrow> bool" where
  "dless NaN y = False"
| "dless x NaN = False"
| "dless (Finite m1 e1) (Finite m2 e2) =
     (let e = min e1 e2 in m1 * 2 ^ nat (e1 - e) < m2 * 2 ^ nat (e2 - e))"
| "dless (Finite m e) PlusInf = True"
| "dless (Finite m e) MinusInf = False"
| "dless PlusInf y = False"
| "dless MinusInf (Finite m e) = True"
| "dless MinusInf PlusInf = True"
| "dless MinusInf MinusInf = False"

instantiation double :: "{zero_neq_one, plus, minus, uminus, times, abs, ord}"
begin

definition zero_double :: double where
  "zero_double = Finite 0 0"

definition one_double :: double where
  "one_double = Finite 1 0"

definition plus_double :: "double \<Rightarrow> double \<Rightarrow> double" where
  "plus_double x y = dadd x y"

definition uminus_double :: "double \<Rightarrow> double" where
  "uminus_double x = dneg x"

definition minus_double :: "double \<Rightarrow> double \<Rightarrow> double" where
  "minus_double x y = dadd x (dneg y)"

definition times_double :: "double \<Rightarrow> double \<Rightarrow> double" where
  "times_double x y = dmul x y"

definition abs_double :: "double \<Rightarrow> double" where
  "abs_double x = dabs x"

definition less_double :: "double \<Rightarrow> double \<Rightarrow> bool" where
  "less_double x y = dless x y"

definition less_eq_double :: "double \<Rightarrow> double \<Rightarrow> bool" where
  "less_eq_double x y = (dless x y \<or> (x \<noteq> NaN \<and> x = y))"

instance
  by standard (simp add: zero_double_def one_double_def)

end




section \<open>HPIPMInterface\<close>

text \<open>
  The linear-quadratic problem that the solver reads (class \<open>LQOCProblem\<close>, of which the
  interface uses the number of stages and the arrays below).  \<open>P\<close> holds the cross terms
  \<open>S\<^sub>i\<close> of the cost (\<open>CONTROL_DIM \<times> STATE_DIM\<close>).
\<close>

record 'a LQOCProblem =
  K_stages :: int
  p_x :: "'a vec list"
  p_u :: "'a vec list"
  p_A :: "'a mat list"
  p_B :: "'a mat list"
  p_b :: "'a vec list"
  p_P :: "'a mat list"
  p_qv :: "'a vec list"
  p_Q :: "'a mat list"
  p_rv :: "'a vec list"
  p_R :: "'a mat list"

text \<open>
  The interface hands arrays of \<open>double*\<close> to the solver.  A pointer is the name of the
  object whose \<open>data()\<close> it holds: an element of one of the problem's arrays, an element
  of one of the interface's own arrays, or one of the two separate first-stage vectors.
\<close>

datatype ptr =
    nullptr
  | problem_x nat | problem_A nat | problem_B nat
  | problem_Q nat | problem_P nat | problem_R nat
  | at_bEigen nat | at_hb0
  | at_hqEigen nat
  | at_hrEigen nat | at_hr0
  | at_hx nat | at_hu nat

text \<open>The members of the interface that the transcription and the extraction of the
  solution use; the trailing underscore of the C++ names is dropped (\<open>N_\<close> is
  \<open>N_stages\<close>, \<open>u_\<close> and \<open>x_\<close> are \<open>u_ptrs\<close> and \<open>x_ptrs\<close>).\<close>

record 'a HPIPMInterface =
  N_stages :: int
  x0 :: ptr
  nx :: "int list"
  nu :: "int list"
  hA :: "ptr list"
  hB :: "ptr list"
  bEigen :: "'a vec list"
  hb :: "ptr list"
  hb0 :: "'a vec"
  hQ :: "ptr list"
  hS :: "ptr list"
  hR :: "ptr list"
  hqEigen :: "'a vec list"
  hq :: "ptr list"
  hrEigen :: "'a vec list"
  hr :: "ptr list"
  hr0 :: "'a vec"
  u_ptrs :: "ptr list"
  x_ptrs :: "ptr list"
  hx :: "'a vec list"
  hu :: "'a vec list"

text \<open>The constructor: no horizon (\<open>N_ = -1\<close>), empty arrays, \<open>hb0_\<close> and \<open>hr0_\<close> zero.\<close>

definition HPIPMInterface_new :: "nat \<Rightarrow> nat \<Rightarrow> ('a::comm_ring_1) HPIPMInterface" where
  "HPIPMInterface_new n m =
     \<lparr> N_stages = - 1, x0 = nullptr, nx = [], nu = [], hA = [], hB = [], bEigen = [], hb = [],
       hb0 = Zero_vec n, hQ = [], hS = [], hR = [], hqEigen = [], hq = [], hrEigen = [],
       hr = [], hr0 = Zero_vec m, u_ptrs = [], x_ptrs = [], hx = [], hu = [] \<rparr>"

text \<open>\<open>std::vector::resize\<close>: the first \<open>k\<close> elements are kept and the array is filled up
  to length \<open>k\<close> with \<open>d\<close> (a null pointer, the given value, or, for Eigen vectors, the
  content of uninitialised storage: \<open>uninit_x\<close> for state vectors and \<open>uninit_u\<close> for
  control vectors below).\<close>

definition resize :: "nat \<Rightarrow> 'b \<Rightarrow> 'b list \<Rightarrow> 'b list" where
  "resize k d xs = take k xs @ replicate (k - length xs) d"

text \<open>
  \<open>changeNumberOfStages\<close>.  A negative \<open>N\<close> makes one of the \<open>resize\<close> calls throw
  \<open>std::length_error\<close> (the size converts to an unsigned number beyond \<open>max_size()\<close>).
  The calls that allocate the solver's memory are outside the model.  \<open>link_step\<close> is
  one pass of the loop that makes \<open>x_[i+1]\<close> and \<open>u_[i]\<close> point into \<open>hx_\<close> and \<open>hu_\<close>.
\<close>

definition link_step :: "nat \<Rightarrow> 'a HPIPMInterface \<Rightarrow> 'a HPIPMInterface" where
  "link_step i st =
     st \<lparr> x_ptrs := (x_ptrs st)[i + 1 := at_hx (i + 1)],
          u_ptrs := (u_ptrs st)[i := at_hu i] \<rparr>"

definition changeNumberOfStages ::
  "nat \<Rightarrow> nat \<Rightarrow> 'a vec \<Rightarrow> 'a vec \<Rightarrow> int \<Rightarrow> 'a HPIPMInterface
     \<Rightarrow> error + 'a HPIPMInterface" where
  "changeNumberOfStages n m uninit_x uninit_u N st =
     (if N < 0 then Inl LengthError
      else Inr (
        let k = nat N;
            st1 = st \<lparr> N_stages := N,
                      nx := resize (k + 1) (int n) (nx st),
                      nu := resize (k + 1) (int m) (nu st),
                      hA := resize k nullptr (hA st),
                      hB := resize k nullptr (hB st),
                      bEigen := resize k uninit_x (bEigen st),
                      hb := resize k nullptr (hb st),
                      hQ := resize (k + 1) nullptr (hQ st),
                      hS := resize (k + 1) nullptr (hS st),
                      hR := resize (k + 1) nullptr (hR st),
                      hqEigen := resize (k + 1) uninit_x (hqEigen st),
                      hq := resize (k + 1) nullptr (hq st),
                      hrEigen := resize (k + 1) uninit_u (hrEigen st),
                      hr := resize (k + 1) nullptr (hr st),
                      u_ptrs := resize (k + 1) nullptr (u_ptrs st),
                      x_ptrs := resize (k + 1) nullptr (x_ptrs st),
                      hx := resize (k + 1) uninit_x (hx st),
                      hu := resize k uninit_u (hu st) \<rparr>;
            st2 = fold link_step [0..<k] st1;
            st3 = st2 \<lparr> nx := (nx st2)[0 := 0] \<rparr>;
            st4 = st3 \<lparr> nu := (nu st3)[k := 0] \<rparr>
        in st4))"

text \<open>One pass of the first loop of \<open>setupHPIPM\<close> (dynamics) and one pass of the second
  (cost), for the loop index \<open>i\<close>.\<close>

definition dynamics_step ::
  "nat \<Rightarrow> nat \<Rightarrow> ('a::comm_ring_1) vec list \<Rightarrow> 'a vec list \<Rightarrow> 'a mat list \<Rightarrow> 'a mat list
     \<Rightarrow> 'a vec list \<Rightarrow> nat \<Rightarrow> 'a HPIPMInterface \<Rightarrow> 'a HPIPMInterface" where
  "dynamics_step n m x u A B b i st =
     st \<lparr> hA := (hA st)[i := problem_A i],
          hB := (hB st)[i := problem_B i],
          bEigen := (bEigen st)[i :=
            vsub n (vsub n (vadd n (b ! i) (x ! (i + 1))) (mat_vec n n (A ! i) (x ! i)))
              (mat_vec n m (B ! i) (u ! i))],
          hb := (hb st)[i := at_bEigen i] \<rparr>"

definition cost_step ::
  "nat \<Rightarrow> nat \<Rightarrow> ('a::comm_ring_1) vec list \<Rightarrow> 'a vec list \<Rightarrow> 'a mat list \<Rightarrow> 'a vec list
     \<Rightarrow> 'a mat list \<Rightarrow> 'a vec list \<Rightarrow> 'a mat list \<Rightarrow> nat \<Rightarrow> 'a HPIPMInterface
     \<Rightarrow> 'a HPIPMInterface" where
  "cost_step n m x u P qv Q rv R i st =
     st \<lparr> hQ := (hQ st)[i := problem_Q i],
          hS := (hS st)[i := problem_P i],
          hR := (hR st)[i := problem_R i],
          hqEigen := (hqEigen st)[i :=
            vsub n (vsub n (qv ! i) (mat_vec n n (Q ! i) (x ! i)))
              (mat_vec n m (transpose_mat m n (P ! i)) (u ! i))],
          hq := (hq st)[i := at_hqEigen i],
          hrEigen := (hrEigen st)[i :=
            vsub m (vsub m (rv ! i) (mat_vec m m (R ! i) (u ! i)))
              (mat_vec m n (P ! i) (x ! i))],
          hr := (hr st)[i := at_hrEigen i] \<rparr>"

text \<open>
  \<open>setupHPIPM\<close>.  It is private and runs only after \<open>changeNumberOfStages\<close>, so apart
  from the test for \<open>-1\<close> the horizon is not negative here and the loop bounds are
  \<open>nat (N_stages st)\<close>.
\<close>

definition setupHPIPM ::
  "nat \<Rightarrow> nat \<Rightarrow> ('a::comm_ring_1) vec list \<Rightarrow> 'a vec list \<Rightarrow> 'a mat list \<Rightarrow> 'a mat list
     \<Rightarrow> 'a vec list \<Rightarrow> 'a mat list \<Rightarrow> 'a vec list \<Rightarrow> 'a mat list \<Rightarrow> 'a vec list \<Rightarrow> 'a mat list
     \<Rightarrow> 'a HPIPMInterface \<Rightarrow> error + 'a HPIPMInterface" where
  "setupHPIPM n m x u A B b P qv Q rv R st =
     (if N_stages st = - 1
      then Inl (RuntimeError ''Time horizon not set, please set it first'')
      else Inr (
        let N = nat (N_stages st);
            st1 = st \<lparr> x0 := problem_x 0 \<rparr>;
            st2 = fold (dynamics_step n m x u A B b) [0..<N] st1;
            st3 = st2 \<lparr> hb0 := vsub n (vadd n (b ! 0) (x ! 1)) (mat_vec n m (B ! 0) (u ! 0)) \<rparr>;
            st4 = st3 \<lparr> hb := (hb st3)[0 := at_hb0] \<rparr>;
            st5 = fold (cost_step n m x u P qv Q rv R) [0..<N] st4;
            st6 = st5 \<lparr> hQ := (hQ st5)[N := problem_Q N],
                        hS := (hS st5)[N := nullptr],
                        hR := (hR st5)[N := nullptr],
                        hqEigen := (hqEigen st5)[N :=
                          vsub n (qv ! N) (mat_vec n n (Q ! N) (x ! N))],
                        hq := (hq st5)[N := at_hqEigen N],
                        hr := (hr st5)[N := nullptr] \<rparr>;
            st7 = st6 \<lparr> hr0 := vadd m (hrEigen st6 ! 0) (mat_vec m n (P ! 0) (x ! 0)) \<rparr>;
            st8 = st7 \<lparr> hr := (hr st7)[0 := at_hr0] \<rparr>
        in st8))"

definition setProblemImpl ::
  "nat \<Rightarrow> nat \<Rightarrow> ('a::comm_ring_1) vec \<Rightarrow> 'a vec \<Rightarrow> 'a LQOCProblem \<Rightarrow> 'a HPIPMInterface
     \<Rightarrow> error + 'a HPIPMInterface" where
  "setProblemImpl n m uninit_x uninit_u lqocProblem st =
     (case changeNumberOfStages n m uninit_x uninit_u (K_stages lqocProblem) st of
        Inl e \<Rightarrow> Inl e
      | Inr st' \<Rightarrow>
          setupHPIPM n m (p_x lqocProblem) (p_u lqocProblem) (p_A lqocProblem) (p_B lqocProblem)
            (p_b lqocProblem) (p_P lqocProblem) (p_qv lqocProblem) (p_Q lqocProblem)
            (p_rv lqocProblem) (p_R lqocProblem) st')"

text \<open>What a vector pointer of the quadratic program refers to, and with it the
  transcribed offsets that the solver reads at stage \<open>i\<close>: \<open>hb_[i]\<close>, \<open>hq_[i]\<close> and
  \<open>hr_[i]\<close>.  A null pointer refers to nothing.\<close>

definition load_vec :: "'a LQOCProblem \<Rightarrow> 'a HPIPMInterface \<Rightarrow> ptr \<Rightarrow> 'a vec option" where
  "load_vec lqocProblem st p =
     (case p of
        at_bEigen i \<Rightarrow> if i < length (bEigen st) then Some (bEigen st ! i) else None
      | at_hb0 \<Rightarrow> Some (hb0 st)
      | at_hqEigen i \<Rightarrow> if i < length (hqEigen st) then Some (hqEigen st ! i) else None
      | at_hrEigen i \<Rightarrow> if i < length (hrEigen st) then Some (hrEigen st ! i) else None
      | at_hr0 \<Rightarrow> Some (hr0 st)
      | at_hx i \<Rightarrow> if i < length (hx st) then Some (hx st ! i) else None
      | at_hu i \<Rightarrow> if i < length (hu st) then Some (hu st ! i) else None
      | problem_x i \<Rightarrow>
          if i < length (p_x lqocProblem) then Some (p_x lqocProblem ! i) else None
      | _ \<Rightarrow> None)"

definition b_abs :: "'a LQOCProblem \<Rightarrow> 'a HPIPMInterface \<Rightarrow> nat \<Rightarrow> 'a vec option" where
  "b_abs lqocProblem st i = load_vec lqocProblem st (hb st ! i)"

definition q_abs :: "'a LQOCProblem \<Rightarrow> 'a HPIPMInterface \<Rightarrow> nat \<Rightarrow> 'a vec option" where
  "q_abs lqocProblem st i = load_vec lqocProblem st (hq st ! i)"

definition r_abs :: "'a LQOCProblem \<Rightarrow> 'a HPIPMInterface \<Rightarrow> nat \<Rightarrow> 'a vec option" where
  "r_abs lqocProblem st i = load_vec lqocProblem st (hr st ! i)"

text \<open>A problem with horizon \<open>N\<close> whose arrays are as long as \<open>setupHPIPM\<close> reads them:
  \<open>N + 1\<close> states, state costs and state gradients, \<open>N\<close> of everything else.\<close>

definition problem_ok :: "'a LQOCProblem \<Rightarrow> bool" where
  "problem_ok lqocProblem =
     (let N = K_stages lqocProblem in
      1 \<le> N
      \<and> int (length (p_x lqocProblem)) = N + 1
      \<and> int (length (p_qv lqocProblem)) = N + 1
      \<and> int (length (p_Q lqocProblem)) = N + 1
      \<and> int (length (p_u lqocProblem)) = N
      \<and> int (length (p_A lqocProblem)) = N
      \<and> int (length (p_B lqocProblem)) = N
      \<and> int (length (p_b lqocProblem)) = N
      \<and> int (length (p_P lqocProblem)) = N
      \<and> int (length (p_rv lqocProblem)) = N
      \<and> int (length (p_R lqocProblem)) = N)"


text \<open>A problem with two stages, state dimension 2 and control dimension 1, whose nominal
  trajectory follows the dynamics of a double integrator exactly.\<close>

definition example_problem :: "int LQOCProblem" where
  "example_problem =
     \<lparr> K_stages = 2,
       p_x = [[1, 2], [3, 5], [8, 4]],
       p_u = [[3], [- 1]],
       p_A = [[[1, 1], [0, 1]], [[1, 1], [0, 1]]],
       p_B = [[[0], [1]], [[0], [1]]],
       p_b = [[0, 0], [0, 0]],
       p_P = [[[1, 0]], [[0, 1]]],
       p_qv = [[1, 1], [0, 2], [3, 0]],
       p_Q = [[[2, 0], [0, 2]], [[2, 0], [0, 2]], [[1, 0], [0, 1]]],
       p_rv = [[1], [2]],
       p_R = [[[1]], [[1]]] \<rparr>"

subsection \<open>Extraction of the solution\<close>

text \<open>
  Modelled from the spec: the solver \<open>d_solve_ipm2_hard_ocp_qp\<close> and the conversion
  \<open>d_cvt_ocp_qp_sol_to_colmaj\<close> belong to the HPIPM library.  The solution that the solver
  leaves behind is a pair of stage-indexed sequences; the conversion copies, for each stage
  \<open>ii = 0..N\<close>, \<open>nu_[ii]\<close> numbers to \<open>u_[ii]\<close> and \<open>nx_[ii]\<close> numbers to \<open>x_[ii]\<close>.
\<close>

record 'a qp_sol =
  sol_u :: "nat \<Rightarrow> 'a vec"
  sol_x :: "nat \<Rightarrow> 'a vec"

definition store_vec :: "ptr \<Rightarrow> int \<Rightarrow> 'a vec \<Rightarrow> 'a HPIPMInterface \<Rightarrow> 'a HPIPMInterface" where
  "store_vec p k v st =
     (if k \<le> 0 then st
      else case p of
        at_hx i \<Rightarrow> st \<lparr> hx := (hx st)[i := take (nat k) v @ drop (nat k) (hx st ! i)] \<rparr>
      | at_hu i \<Rightarrow> st \<lparr> hu := (hu st)[i := take (nat k) v @ drop (nat k) (hu st ! i)] \<rparr>
      | _ \<Rightarrow> st)"

definition cvt_ocp_qp_sol_to_colmaj :: "'a qp_sol \<Rightarrow> 'a HPIPMInterface \<Rightarrow> 'a HPIPMInterface" where
  "cvt_ocp_qp_sol_to_colmaj sol st =
     fold (\<lambda>ii s. store_vec (x_ptrs s ! ii) (nx s ! ii) (sol_x sol ii)
                    (store_vec (u_ptrs s ! ii) (nu s ! ii) (sol_u sol ii) s))
       [0..<nat (N_stages st) + 1] st"

text \<open>\<open>getSolutionState\<close> and \<open>getSolutionControl\<close> return the trajectory and leave the
  interface updated; \<open>getFeedback\<close> throws.\<close>

definition getSolutionState ::
  "'a LQOCProblem \<Rightarrow> 'a qp_sol \<Rightarrow> 'a HPIPMInterface \<Rightarrow> 'a vec list \<times> 'a HPIPMInterface" where
  "getSolutionState lqocProblem sol st =
     (let st1 = cvt_ocp_qp_sol_to_colmaj sol st;
          st2 = st1 \<lparr> hx := (hx st1)[0 := p_x lqocProblem ! 0] \<rparr>
      in (hx st2, st2))"

definition getSolutionControl ::
  "'a qp_sol \<Rightarrow> 'a HPIPMInterface \<Rightarrow> 'a vec list \<times> 'a HPIPMInterface" where
  "getSolutionControl sol st =
     (let st1 = cvt_ocp_qp_sol_to_colmaj sol st in (hu st1, st1))"

definition getFeedback :: "'a HPIPMInterface \<Rightarrow> error + 'a mat list" where
  "getFeedback st = Inl (RuntimeError ''not implemented'')"

section \<open>Basic facts about the matrix operations\<close>

lemma mk_vec_length [simp]: "length (mk_vec n f) = n"
  by (simp add: mk_vec_def)

lemma mk_vec_nth [simp]: "i < n \<Longrightarrow> mk_vec n f ! i = f i"
  by (simp add: mk_vec_def)

lemma mk_mat_length [simp]: "length (mk_mat r c f) = r"
  by (simp add: mk_mat_def)

lemma mk_mat_row_length [simp]: "i < r \<Longrightarrow> length (mk_mat r c f ! i) = c"
  by (simp add: mk_mat_def)

lemma mk_mat_nth [simp]: "i < r \<Longrightarrow> j < c \<Longrightarrow> mk_mat r c f ! i ! j = f i j"
  by (simp add: mk_mat_def)

lemma is_mat_mk_mat [simp]: "is_mat r c (mk_mat r c f)"
  by (simp add: is_mat_def mk_mat_def list_all_iff)

lemma is_mat_row: "is_mat r c X \<Longrightarrow> i < r \<Longrightarrow> length (X ! i) = c"
  by (simp add: is_mat_def list_all_length)



lemma mat_eqI:
  assumes "is_mat r c X" and "is_mat r c Y"
    and "\<And>i j. i < r \<Longrightarrow> j < c \<Longrightarrow> X ! i ! j = Y ! i ! j"
  shows "X = Y"
proof (rule nth_equalityI)
  show "length X = length Y"
    using assms(1,2) by (simp add: is_mat_def)
next
  fix i assume "i < length X"
  then have i: "i < r" using assms(1) by (simp add: is_mat_def)
  show "X ! i = Y ! i"
  proof (rule nth_equalityI)
    show "length (X ! i) = length (Y ! i)"
      using assms(1,2) i by (simp add: is_mat_row)
  next
    fix j assume "j < length (X ! i)"
    then have "j < c" using assms(1) i by (simp add: is_mat_row)
    then show "X ! i ! j = Y ! i ! j" using i assms(3) by simp
  qed
qed

lemma mk_mat_self: "is_mat r c X \<Longrightarrow> mk_mat r c (\<lambda>i j. X ! i ! j) = X"
  by (rule mat_eqI [of r c]) simp_all

section \<open>Facts about the solver interface\<close>

lemma resize_length [simp]: "length (resize k d xs) = k"
  by (simp add: resize_def)

lemma store_vec_lengths [simp]:
  "length (hx (store_vec p k v st)) = length (hx st)"
  "length (hu (store_vec p k v st)) = length (hu st)"
  by (simp_all add: store_vec_def split: ptr.splits)

lemma cvt_lengths [simp]:
  "length (hx (cvt_ocp_qp_sol_to_colmaj sol st)) = length (hx st)"
  "length (hu (cvt_ocp_qp_sol_to_colmaj sol st)) = length (hu st)"
  unfolding cvt_ocp_qp_sol_to_colmaj_def
  by (rule fold_invariant [where Q = "\<lambda>_. True"], simp_all)+

lemma link_fold_frame:
  "\<exists>xp up. fold link_step is s = s \<lparr> x_ptrs := xp, u_ptrs := up \<rparr>"
proof (induction "is" arbitrary: s)
  case Nil
  have "s = s \<lparr> x_ptrs := x_ptrs s, u_ptrs := u_ptrs s \<rparr>" by simp
  then show ?case by (metis fold_simps(1))
next
  case (Cons i "is")
  obtain xp up where "fold link_step is (link_step i s) = (link_step i s) \<lparr> x_ptrs := xp, u_ptrs := up \<rparr>"
    using Cons.IH by blast
  moreover have "(link_step i s) \<lparr> x_ptrs := xp, u_ptrs := up \<rparr> = s \<lparr> x_ptrs := xp, u_ptrs := up \<rparr>"
    by (simp add: link_step_def)
  ultimately have "fold link_step (i # is) s = s \<lparr> x_ptrs := xp, u_ptrs := up \<rparr>"
    by simp
  then show ?case by blast
qed

lemma changeNumberOfStages_result:
  assumes "changeNumberOfStages n m uninit_x uninit_u N st = Inr st'"
  shows "0 \<le> N \<and> N_stages st' = N
    \<and> length (hx st') = nat N + 1 \<and> length (hu st') = nat N
    \<and> length (hA st') = nat N \<and> length (hB st') = nat N
    \<and> length (bEigen st') = nat N \<and> length (hb st') = nat N
    \<and> length (hQ st') = nat N + 1 \<and> length (hS st') = nat N + 1 \<and> length (hR st') = nat N + 1
    \<and> length (hqEigen st') = nat N + 1 \<and> length (hq st') = nat N + 1
    \<and> length (hrEigen st') = nat N + 1 \<and> length (hr st') = nat N + 1"
proof -
  have N: "0 \<le> N" using assms by (simp add: changeNumberOfStages_def split: if_splits)
  define st1 where "st1 = st \<lparr> N_stages := N,
                      nx := resize (nat N + 1) (int n) (nx st),
                      nu := resize (nat N + 1) (int m) (nu st),
                      hA := resize (nat N) nullptr (hA st),
                      hB := resize (nat N) nullptr (hB st),
                      bEigen := resize (nat N) uninit_x (bEigen st),
                      hb := resize (nat N) nullptr (hb st),
                      hQ := resize (nat N + 1) nullptr (hQ st),
                      hS := resize (nat N + 1) nullptr (hS st),
                      hR := resize (nat N + 1) nullptr (hR st),
                      hqEigen := resize (nat N + 1) uninit_x (hqEigen st),
                      hq := resize (nat N + 1) nullptr (hq st),
                      hrEigen := resize (nat N + 1) uninit_u (hrEigen st),
                      hr := resize (nat N + 1) nullptr (hr st),
                      u_ptrs := resize (nat N + 1) nullptr (u_ptrs st),
                      x_ptrs := resize (nat N + 1) nullptr (x_ptrs st),
                      hx := resize (nat N + 1) uninit_x (hx st),
                      hu := resize (nat N) uninit_u (hu st) \<rparr>"
  obtain xp up where f: "fold link_step [0..<nat N] st1 = st1 \<lparr> x_ptrs := xp, u_ptrs := up \<rparr>"
    using link_fold_frame by blast
  have st': "st' = (let st2 = fold link_step [0..<nat N] st1; st3 = st2 \<lparr> nx := (nx st2)[0 := 0] \<rparr>
       in st3 \<lparr> nu := (nu st3)[nat N := 0] \<rparr>)"
    using assms N by (simp add: changeNumberOfStages_def st1_def Let_def)
  have "st' = st1 \<lparr> x_ptrs := xp, u_ptrs := up, nx := (nx st1)[0 := 0], nu := (nu st1)[nat N := 0] \<rparr>"
    unfolding st' f Let_def by simp
  then show ?thesis using N by (simp add: st1_def)
qed

lemma dynamics_fold_frame:
  "\<exists>a b c d. fold (dynamics_step n m x u A B bb) is s = s \<lparr> hA := a, hB := b, bEigen := c, hb := d \<rparr>"
proof (induction "is" arbitrary: s)
  case Nil
  have "s = s \<lparr> hA := hA s, hB := hB s, bEigen := bEigen s, hb := hb s \<rparr>" by simp
  then show ?case by (metis fold_simps(1))
next
  case (Cons i "is")
  let ?s = "dynamics_step n m x u A B bb i s"
  obtain a b c d where "fold (dynamics_step n m x u A B bb) is ?s = ?s \<lparr> hA := a, hB := b, bEigen := c, hb := d \<rparr>"
    using Cons.IH by blast
  moreover have "?s \<lparr> hA := a, hB := b, bEigen := c, hb := d \<rparr> = s \<lparr> hA := a, hB := b, bEigen := c, hb := d \<rparr>"
    by (simp add: dynamics_step_def)
  ultimately have "fold (dynamics_step n m x u A B bb) (i # is) s = s \<lparr> hA := a, hB := b, bEigen := c, hb := d \<rparr>"
    by simp
  then show ?case by blast
qed

lemma dynamics_fold_keeps [simp]:
  "N_stages (fold (dynamics_step n m x u A B bb) is s) = N_stages s"
  "hb0 (fold (dynamics_step n m x u A B bb) is s) = hb0 s"
  "hqEigen (fold (dynamics_step n m x u A B bb) is s) = hqEigen s"
  "hq (fold (dynamics_step n m x u A B bb) is s) = hq s"
  "hrEigen (fold (dynamics_step n m x u A B bb) is s) = hrEigen s"
  "hr (fold (dynamics_step n m x u A B bb) is s) = hr s"
  "hr0 (fold (dynamics_step n m x u A B bb) is s) = hr0 s"
  "hQ (fold (dynamics_step n m x u A B bb) is s) = hQ s"
  "hS (fold (dynamics_step n m x u A B bb) is s) = hS s"
  "hR (fold (dynamics_step n m x u A B bb) is s) = hR s"
  "hx (fold (dynamics_step n m x u A B bb) is s) = hx s"
  "hu (fold (dynamics_step n m x u A B bb) is s) = hu s"
  using dynamics_fold_frame [of n m x u A B bb "is" s] by auto

lemma dynamics_step_fields:
  "bEigen (dynamics_step n m x u A B bb i s) = (bEigen s)[i :=
     vsub n (vsub n (vadd n (bb ! i) (x ! (i + 1))) (mat_vec n n (A ! i) (x ! i)))
       (mat_vec n m (B ! i) (u ! i))]"
  "hb (dynamics_step n m x u A B bb i s) = (hb s)[i := at_bEigen i]"
  by (simp_all add: dynamics_step_def)

lemma dynamics_fold_lengths [simp]:
  "length (bEigen (fold (dynamics_step n m x u A B bb) is s)) = length (bEigen s)"
  "length (hb (fold (dynamics_step n m x u A B bb) is s)) = length (hb s)"
  by (induction "is" arbitrary: s) (simp_all add: dynamics_step_fields)

lemma dynamics_fold_values:
  assumes "k \<le> length (bEigen s)" and "k \<le> length (hb s)" and "i < k"
  shows "bEigen (fold (dynamics_step n m x u A B bb) [0..<k] s) ! i =
           vsub n (vsub n (vadd n (bb ! i) (x ! (i + 1))) (mat_vec n n (A ! i) (x ! i)))
             (mat_vec n m (B ! i) (u ! i))"
    and "hb (fold (dynamics_step n m x u A B bb) [0..<k] s) ! i = at_bEigen i"
  using assms
proof (induction k)
  case 0
  { case 1 then show ?case by simp }
  { case 2 then show ?case by simp }
next
  case (Suc k)
  { case 1 then show ?case using Suc.IH(1)
      by (cases "i = k") (simp_all add: dynamics_step_fields nth_list_update) }
  { case 2 then show ?case using Suc.IH(2)
      by (cases "i = k") (simp_all add: dynamics_step_fields nth_list_update) }
qed


lemma cost_fold_frame:
  "\<exists>a b c d e f g. fold (cost_step n m x u P qv Q rv R) is s =
     s \<lparr> hQ := a, hS := b, hR := c, hqEigen := d, hq := e, hrEigen := f, hr := g \<rparr>"
proof (induction "is" arbitrary: s)
  case Nil
  have "s = s \<lparr> hQ := hQ s, hS := hS s, hR := hR s, hqEigen := hqEigen s, hq := hq s,
                hrEigen := hrEigen s, hr := hr s \<rparr>" by simp
  then show ?case by (metis fold_simps(1))
next
  case (Cons i "is")
  let ?s = "cost_step n m x u P qv Q rv R i s"
  obtain a b c d e f g where "fold (cost_step n m x u P qv Q rv R) is ?s =
      ?s \<lparr> hQ := a, hS := b, hR := c, hqEigen := d, hq := e, hrEigen := f, hr := g \<rparr>"
    using Cons.IH by blast
  moreover have "?s \<lparr> hQ := a, hS := b, hR := c, hqEigen := d, hq := e, hrEigen := f, hr := g \<rparr>
      = s \<lparr> hQ := a, hS := b, hR := c, hqEigen := d, hq := e, hrEigen := f, hr := g \<rparr>"
    by (simp add: cost_step_def)
  ultimately have "fold (cost_step n m x u P qv Q rv R) (i # is) s =
      s \<lparr> hQ := a, hS := b, hR := c, hqEigen := d, hq := e, hrEigen := f, hr := g \<rparr>"
    by simp
  then show ?case by blast
qed

lemma cost_fold_keeps [simp]:
  "N_stages (fold (cost_step n m x u P qv Q rv R) is s) = N_stages s"
  "bEigen (fold (cost_step n m x u P qv Q rv R) is s) = bEigen s"
  "hb (fold (cost_step n m x u P qv Q rv R) is s) = hb s"
  "hb0 (fold (cost_step n m x u P qv Q rv R) is s) = hb0 s"
  "hr0 (fold (cost_step n m x u P qv Q rv R) is s) = hr0 s"
  "hx (fold (cost_step n m x u P qv Q rv R) is s) = hx s"
  "hu (fold (cost_step n m x u P qv Q rv R) is s) = hu s"
  using cost_fold_frame [of n m x u P qv Q rv R "is" s] by auto

lemma cost_step_fields:
  "hqEigen (cost_step n m x u P qv Q rv R i s) = (hqEigen s)[i :=
     vsub n (vsub n (qv ! i) (mat_vec n n (Q ! i) (x ! i)))
       (mat_vec n m (transpose_mat m n (P ! i)) (u ! i))]"
  "hq (cost_step n m x u P qv Q rv R i s) = (hq s)[i := at_hqEigen i]"
  "hrEigen (cost_step n m x u P qv Q rv R i s) = (hrEigen s)[i :=
     vsub m (vsub m (rv ! i) (mat_vec m m (R ! i) (u ! i))) (mat_vec m n (P ! i) (x ! i))]"
  "hr (cost_step n m x u P qv Q rv R i s) = (hr s)[i := at_hrEigen i]"
  "hS (cost_step n m x u P qv Q rv R i s) = (hS s)[i := problem_P i]"
  "hR (cost_step n m x u P qv Q rv R i s) = (hR s)[i := problem_R i]"
  "hQ (cost_step n m x u P qv Q rv R i s) = (hQ s)[i := problem_Q i]"
  by (simp_all add: cost_step_def)

lemma cost_fold_lengths [simp]:
  "length (hqEigen (fold (cost_step n m x u P qv Q rv R) is s)) = length (hqEigen s)"
  "length (hq (fold (cost_step n m x u P qv Q rv R) is s)) = length (hq s)"
  "length (hrEigen (fold (cost_step n m x u P qv Q rv R) is s)) = length (hrEigen s)"
  "length (hr (fold (cost_step n m x u P qv Q rv R) is s)) = length (hr s)"
  "length (hS (fold (cost_step n m x u P qv Q rv R) is s)) = length (hS s)"
  "length (hR (fold (cost_step n m x u P qv Q rv R) is s)) = length (hR s)"
  "length (hQ (fold (cost_step n m x u P qv Q rv R) is s)) = length (hQ s)"
  by (induction "is" arbitrary: s) (simp_all add: cost_step_fields)

lemma cost_fold_values:
  assumes "k \<le> length (hqEigen s)" and "k \<le> length (hq s)"
    and "k \<le> length (hrEigen s)" and "k \<le> length (hr s)" and "i < k"
  shows "hqEigen (fold (cost_step n m x u P qv Q rv R) [0..<k] s) ! i =
           vsub n (vsub n (qv ! i) (mat_vec n n (Q ! i) (x ! i)))
             (mat_vec n m (transpose_mat m n (P ! i)) (u ! i))"
    and "hq (fold (cost_step n m x u P qv Q rv R) [0..<k] s) ! i = at_hqEigen i"
    and "hrEigen (fold (cost_step n m x u P qv Q rv R) [0..<k] s) ! i =
           vsub m (vsub m (rv ! i) (mat_vec m m (R ! i) (u ! i))) (mat_vec m n (P ! i) (x ! i))"
    and "hr (fold (cost_step n m x u P qv Q rv R) [0..<k] s) ! i = at_hrEigen i"
  using assms
proof (induction k)
  case 0
  { case 1 then show ?case by simp }
  { case 2 then show ?case by simp }
  { case 3 then show ?case by simp }
  { case 4 then show ?case by simp }
next
  case (Suc k)
  { case 1 then show ?case using Suc.IH(1)
      by (cases "i = k") (simp_all add: cost_step_fields nth_list_update) }
  { case 2 then show ?case using Suc.IH(2)
      by (cases "i = k") (simp_all add: cost_step_fields nth_list_update) }
  { case 3 then show ?case using Suc.IH(3)
      by (cases "i = k") (simp_all add: cost_step_fields nth_list_update) }
  { case 4 then show ?case using Suc.IH(4)
      by (cases "i = k") (simp_all add: cost_step_fields nth_list_update) }
qed

lemma setupHPIPM_fields:
  fixes x u :: "('a::comm_ring_1) vec list"
  assumes ok: "setupHPIPM n m x u A B bb P qv Q rv R st = Inr st'"
    and N: "N_stages st = int N" "1 \<le> N"
    and lens: "length (bEigen st) = N" "length (hb st) = N"
      "length (hqEigen st) = N + 1" "length (hq st) = N + 1"
      "length (hrEigen st) = N + 1" "length (hr st) = N + 1"
      "length (hS st) = N + 1" "length (hR st) = N + 1"
  shows "hx st' = hx st" and "hu st' = hu st" and "N_stages st' = N_stages st"
    and "length (bEigen st') = N" and "length (hqEigen st') = N + 1"
    and "length (hrEigen st') = N + 1"
    and "hb0 st' = vsub n (vadd n (bb ! 0) (x ! 1)) (mat_vec n m (B ! 0) (u ! 0))"
    and "hb st' ! 0 = at_hb0"
    and "\<And>i. 1 \<le> i \<Longrightarrow> i < N \<Longrightarrow> hb st' ! i = at_bEigen i"
    and "\<And>i. i < N \<Longrightarrow> bEigen st' ! i =
           vsub n (vsub n (vadd n (bb ! i) (x ! (i + 1))) (mat_vec n n (A ! i) (x ! i)))
             (mat_vec n m (B ! i) (u ! i))"
    and "\<And>i. i \<le> N \<Longrightarrow> hq st' ! i = at_hqEigen i"
    and "\<And>i. i < N \<Longrightarrow> hqEigen st' ! i =
           vsub n (vsub n (qv ! i) (mat_vec n n (Q ! i) (x ! i)))
             (mat_vec n m (transpose_mat m n (P ! i)) (u ! i))"
    and "hqEigen st' ! N = vsub n (qv ! N) (mat_vec n n (Q ! N) (x ! N))"
    and "\<And>i. i < N \<Longrightarrow> hrEigen st' ! i =
           vsub m (vsub m (rv ! i) (mat_vec m m (R ! i) (u ! i))) (mat_vec m n (P ! i) (x ! i))"
    and "hr st' ! 0 = at_hr0"
    and "\<And>i. 1 \<le> i \<Longrightarrow> i < N \<Longrightarrow> hr st' ! i = at_hrEigen i"
    and "hr st' ! N = nullptr" and "hS st' ! N = nullptr" and "hR st' ! N = nullptr"
    and "hr0 st' = vadd m (vsub m (vsub m (rv ! 0) (mat_vec m m (R ! 0) (u ! 0)))
                             (mat_vec m n (P ! 0) (x ! 0)))
                     (mat_vec m n (P ! 0) (x ! 0))"
proof -
  define st2 where "st2 = fold (dynamics_step n m x u A B bb) [0..<N] (st \<lparr> x0 := problem_x 0 \<rparr>)"
  define st4 where "st4 = st2 \<lparr> hb0 := vsub n (vadd n (bb ! 0) (x ! 1)) (mat_vec n m (B ! 0) (u ! 0)),
                               hb := (hb st2)[0 := at_hb0] \<rparr>"
  define st5 where "st5 = fold (cost_step n m x u P qv Q rv R) [0..<N] st4"
  define st6 where "st6 = st5 \<lparr> hQ := (hQ st5)[N := problem_Q N],
                        hS := (hS st5)[N := nullptr],
                        hR := (hR st5)[N := nullptr],
                        hqEigen := (hqEigen st5)[N :=
                          vsub n (qv ! N) (mat_vec n n (Q ! N) (x ! N))],
                        hq := (hq st5)[N := at_hqEigen N],
                        hr := (hr st5)[N := nullptr] \<rparr>"
  have "N_stages st \<noteq> - 1" using N by simp
  then have st': "st' = st6 \<lparr> hr0 := vadd m (hrEigen st6 ! 0) (mat_vec m n (P ! 0) (x ! 0)),
                              hr := (hr st6)[0 := at_hr0] \<rparr>"
    using ok N(1) unfolding setupHPIPM_def Let_def st6_def st5_def st4_def st2_def by simp
  have l2: "length (bEigen st2) = N" "length (hb st2) = N"
    by (simp_all add: st2_def lens)
  have v2: "\<And>i. i < N \<Longrightarrow> bEigen st2 ! i =
           vsub n (vsub n (vadd n (bb ! i) (x ! (i + 1))) (mat_vec n n (A ! i) (x ! i)))
             (mat_vec n m (B ! i) (u ! i))"
      "\<And>i. i < N \<Longrightarrow> hb st2 ! i = at_bEigen i"
    unfolding st2_def by (rule dynamics_fold_values; simp add: lens)+
  have k2: "hqEigen st2 = hqEigen st" "hq st2 = hq st" "hrEigen st2 = hrEigen st" "hr st2 = hr st"
    "hS st2 = hS st" "hR st2 = hR st" "hx st2 = hx st" "hu st2 = hu st" "N_stages st2 = N_stages st"
    by (simp_all add: st2_def)
  have l4: "length (hqEigen st4) = N + 1" "length (hq st4) = N + 1"
      "length (hrEigen st4) = N + 1" "length (hr st4) = N + 1"
      "length (hS st4) = N + 1" "length (hR st4) = N + 1"
    by (simp_all add: st4_def k2 lens)
  have v5: "\<And>i. i < N \<Longrightarrow> hqEigen st5 ! i =
           vsub n (vsub n (qv ! i) (mat_vec n n (Q ! i) (x ! i)))
             (mat_vec n m (transpose_mat m n (P ! i)) (u ! i))"
    "\<And>i. i < N \<Longrightarrow> hq st5 ! i = at_hqEigen i"
    "\<And>i. i < N \<Longrightarrow> hrEigen st5 ! i =
           vsub m (vsub m (rv ! i) (mat_vec m m (R ! i) (u ! i))) (mat_vec m n (P ! i) (x ! i))"
    "\<And>i. i < N \<Longrightarrow> hr st5 ! i = at_hrEigen i"
    unfolding st5_def by (rule cost_fold_values; simp add: l4)+
  have l5: "length (hqEigen st5) = N + 1" "length (hq st5) = N + 1"
      "length (hrEigen st5) = N + 1" "length (hr st5) = N + 1"
      "length (hS st5) = N + 1" "length (hR st5) = N + 1"
    by (simp_all add: st5_def l4)
  have k5: "bEigen st5 = bEigen st4" "hb st5 = hb st4" "hb0 st5 = hb0 st4" "hx st5 = hx st4"
      "hu st5 = hu st4" "N_stages st5 = N_stages st4"
    by (simp_all add: st5_def)
  show "hx st' = hx st" "hu st' = hu st" "N_stages st' = N_stages st"
    by (simp_all add: st' st6_def k5 st4_def k2)
  show "length (bEigen st') = N" "length (hqEigen st') = N + 1" "length (hrEigen st') = N + 1"
    by (simp_all add: st' st6_def k5 st4_def l2 l5)
  show "hb0 st' = vsub n (vadd n (bb ! 0) (x ! 1)) (mat_vec n m (B ! 0) (u ! 0))"
    by (simp add: st' st6_def k5 st4_def)
  show "hb st' ! 0 = at_hb0"
    using N(2) by (simp add: st' st6_def k5 st4_def l2)
  show "\<And>i. 1 \<le> i \<Longrightarrow> i < N \<Longrightarrow> hb st' ! i = at_bEigen i"
    by (simp add: st' st6_def k5 st4_def l2 v2)
  show "\<And>i. i < N \<Longrightarrow> bEigen st' ! i =
           vsub n (vsub n (vadd n (bb ! i) (x ! (i + 1))) (mat_vec n n (A ! i) (x ! i)))
             (mat_vec n m (B ! i) (u ! i))"
    by (simp add: st' st6_def k5 st4_def v2)
  show "\<And>i. i \<le> N \<Longrightarrow> hq st' ! i = at_hqEigen i"
    by (simp add: st' st6_def nth_list_update l5 v5)
  show "\<And>i. i < N \<Longrightarrow> hqEigen st' ! i =
           vsub n (vsub n (qv ! i) (mat_vec n n (Q ! i) (x ! i)))
             (mat_vec n m (transpose_mat m n (P ! i)) (u ! i))"
    by (simp add: st' st6_def v5)
  show "hqEigen st' ! N = vsub n (qv ! N) (mat_vec n n (Q ! N) (x ! N))"
    by (simp add: st' st6_def l5)
  show "\<And>i. i < N \<Longrightarrow> hrEigen st' ! i =
           vsub m (vsub m (rv ! i) (mat_vec m m (R ! i) (u ! i))) (mat_vec m n (P ! i) (x ! i))"
    by (simp add: st' st6_def v5)
  show "hr st' ! 0 = at_hr0"
    by (simp add: st' st6_def l5)
  show "\<And>i. 1 \<le> i \<Longrightarrow> i < N \<Longrightarrow> hr st' ! i = at_hrEigen i"
    by (simp add: st' st6_def l5 v5)
  show "hr st' ! N = nullptr" "hS st' ! N = nullptr" "hR st' ! N = nullptr"
    using N(2) by (simp_all add: st' st6_def l5)
  show "hr0 st' = vadd m (vsub m (vsub m (rv ! 0) (mat_vec m m (R ! 0) (u ! 0)))
                             (mat_vec m n (P ! 0) (x ! 0)))
                     (mat_vec m n (P ! 0) (x ! 0))"
    using N(2) v5(3) [of 0] by (simp add: st' st6_def)
qed

lemma setProblemImpl_succeeds:
  assumes "0 \<le> K_stages prob"
  shows "\<exists>st. setProblemImpl n m ux uu prob st0 = Inr st"
proof -
  obtain st1 where 1: "changeNumberOfStages n m ux uu (K_stages prob) st0 = Inr st1"
    using assms by (simp add: changeNumberOfStages_def)
  have "N_stages st1 \<noteq> - 1"
    using changeNumberOfStages_result [OF 1] by simp
  then obtain st where 2: "setupHPIPM n m (p_x prob) (p_u prob) (p_A prob) (p_B prob) (p_b prob)
       (p_P prob) (p_qv prob) (p_Q prob) (p_rv prob) (p_R prob) st1 = Inr st"
    by (simp add: setupHPIPM_def)
  have "setProblemImpl n m ux uu prob st0 = Inr st"
    by (simp add: setProblemImpl_def 1 2)
  then show ?thesis by blast
qed

lemma problem_ok_horizon: "problem_ok prob \<Longrightarrow> 1 \<le> K_stages prob"
  by (simp add: problem_ok_def Let_def)

lemma setProblemImpl_fields:
  fixes prob :: "('a::comm_ring_1) LQOCProblem"
  assumes ok: "setProblemImpl n m ux uu prob st0 = Inr st"
    and N: "K_stages prob = int N" "1 \<le> N"
  shows "length (hx st) = N + 1" and "length (hu st) = N"
    and "length (bEigen st) = N" and "length (hqEigen st) = N + 1"
    and "length (hrEigen st) = N + 1"
    and "hb0 st = vsub n (vadd n (p_b prob ! 0) (p_x prob ! 1))
                    (mat_vec n m (p_B prob ! 0) (p_u prob ! 0))"
    and "hb st ! 0 = at_hb0"
    and "\<And>i. 1 \<le> i \<Longrightarrow> i < N \<Longrightarrow> hb st ! i = at_bEigen i"
    and "\<And>i. i < N \<Longrightarrow> bEigen st ! i =
           vsub n (vsub n (vadd n (p_b prob ! i) (p_x prob ! (i + 1)))
                     (mat_vec n n (p_A prob ! i) (p_x prob ! i)))
             (mat_vec n m (p_B prob ! i) (p_u prob ! i))"
    and "\<And>i. i \<le> N \<Longrightarrow> hq st ! i = at_hqEigen i"
    and "\<And>i. i < N \<Longrightarrow> hqEigen st ! i =
           vsub n (vsub n (p_qv prob ! i) (mat_vec n n (p_Q prob ! i) (p_x prob ! i)))
             (mat_vec n m (transpose_mat m n (p_P prob ! i)) (p_u prob ! i))"
    and "hqEigen st ! N = vsub n (p_qv prob ! N) (mat_vec n n (p_Q prob ! N) (p_x prob ! N))"
    and "\<And>i. i < N \<Longrightarrow> hrEigen st ! i =
           vsub m (vsub m (p_rv prob ! i) (mat_vec m m (p_R prob ! i) (p_u prob ! i)))
             (mat_vec m n (p_P prob ! i) (p_x prob ! i))"
    and "hr st ! 0 = at_hr0"
    and "\<And>i. 1 \<le> i \<Longrightarrow> i < N \<Longrightarrow> hr st ! i = at_hrEigen i"
    and "hr st ! N = nullptr" and "hS st ! N = nullptr" and "hR st ! N = nullptr"
    and "hr0 st = vadd m (vsub m (vsub m (p_rv prob ! 0) (mat_vec m m (p_R prob ! 0) (p_u prob ! 0)))
                            (mat_vec m n (p_P prob ! 0) (p_x prob ! 0)))
                    (mat_vec m n (p_P prob ! 0) (p_x prob ! 0))"
proof -
  obtain st1 where
    1: "changeNumberOfStages n m ux uu (K_stages prob) st0 = Inr st1" and
    2: "setupHPIPM n m (p_x prob) (p_u prob) (p_A prob) (p_B prob) (p_b prob) (p_P prob)
       (p_qv prob) (p_Q prob) (p_rv prob) (p_R prob) st1 = Inr st"
    using ok by (auto simp: setProblemImpl_def split: sum.splits)
  note r = changeNumberOfStages_result [OF 1]
  have pre: "N_stages st1 = int N" "length (bEigen st1) = N" "length (hb st1) = N"
      "length (hqEigen st1) = N + 1" "length (hq st1) = N + 1"
      "length (hrEigen st1) = N + 1" "length (hr st1) = N + 1"
      "length (hS st1) = N + 1" "length (hR st1) = N + 1"
    using r N by simp_all
  note f = setupHPIPM_fields [OF 2 pre(1) N(2) pre(2-)]
  show "length (hx st) = N + 1" "length (hu st) = N"
    using f(1,2) r N by simp_all
  show "length (bEigen st) = N" "length (hqEigen st) = N + 1" "length (hrEigen st) = N + 1"
    by (rule f)+
  show "hb0 st = vsub n (vadd n (p_b prob ! 0) (p_x prob ! 1))
                    (mat_vec n m (p_B prob ! 0) (p_u prob ! 0))"
    by (rule f)
  show "hb st ! 0 = at_hb0" by (rule f)
  show "\<And>i. 1 \<le> i \<Longrightarrow> i < N \<Longrightarrow> hb st ! i = at_bEigen i" by (rule f)
  show "\<And>i. i < N \<Longrightarrow> bEigen st ! i =
           vsub n (vsub n (vadd n (p_b prob ! i) (p_x prob ! (i + 1)))
                     (mat_vec n n (p_A prob ! i) (p_x prob ! i)))
             (mat_vec n m (p_B prob ! i) (p_u prob ! i))" by (rule f)
  show "\<And>i. i \<le> N \<Longrightarrow> hq st ! i = at_hqEigen i" by (rule f)
  show "\<And>i. i < N \<Longrightarrow> hqEigen st ! i =
           vsub n (vsub n (p_qv prob ! i) (mat_vec n n (p_Q prob ! i) (p_x prob ! i)))
             (mat_vec n m (transpose_mat m n (p_P prob ! i)) (p_u prob ! i))" by (rule f)
  show "hqEigen st ! N = vsub n (p_qv prob ! N) (mat_vec n n (p_Q prob ! N) (p_x prob ! N))"
    by (rule f)
  show "\<And>i. i < N \<Longrightarrow> hrEigen st ! i =
           vsub m (vsub m (p_rv prob ! i) (mat_vec m m (p_R prob ! i) (p_u prob ! i)))
             (mat_vec m n (p_P prob ! i) (p_x prob ! i))" by (rule f)
  show "hr st ! 0 = at_hr0" by (rule f)
  show "\<And>i. 1 \<le> i \<Longrightarrow> i < N \<Longrightarrow> hr st ! i = at_hrEigen i" by (rule f)
  show "hr st ! N = nullptr" "hS st ! N = nullptr" "hR st ! N = nullptr" by (rule f)+
  show "hr0 st = vadd m (vsub m (vsub m (p_rv prob ! 0) (mat_vec m m (p_R prob ! 0) (p_u prob ! 0)))
                            (mat_vec m n (p_P prob ! 0) (p_x prob ! 0)))
                    (mat_vec m n (p_P prob ! 0) (p_x prob ! 0))" by (rule f)
qed




lemma setupHPIPM_keeps_solution:
  assumes "setupHPIPM n m x u A B bb P qv Q rv R st = Inr st'"
  shows "hx st' = hx st" and "hu st' = hu st"
  using assms by (auto simp: setupHPIPM_def Let_def split: if_splits)

section \<open>Matrix products and powers\<close>

lemma mmul_nth: "i < r \<Longrightarrow> j < c \<Longrightarrow> mmul r k c X Y ! i ! j = (\<Sum>l<k. X ! i ! l * Y ! l ! j)"
  by (simp add: mmul_def)

lemma is_mat_mmul [simp]: "is_mat r c (mmul r k c X Y)"
  by (simp add: mmul_def)

lemma Identity_nth: "i < n \<Longrightarrow> j < n \<Longrightarrow> Identity n ! i ! j = (if i = j then 1 else 0)"
  by (simp add: Identity_def)

lemma is_mat_Identity [simp]: "is_mat n n (Identity n)"
  by (simp add: Identity_def)

lemma is_mat_mpow [simp]: "is_mat n n (mpow n X k)"
  by (cases k) simp_all

lemma sum_delta_left:
  fixes f :: "nat \<Rightarrow> 'a::comm_ring_1"
  assumes "i < n"
  shows "(\<Sum>l<n. (if i = l then 1 else 0) * f l) = f i"
proof -
  have "(\<Sum>l<n. (if i = l then 1 else 0) * f l) = (\<Sum>l\<in>{..<n}. if l = i then f l else 0)"
    by (rule sum.cong) auto
  also have "\<dots> = f i" using assms by (simp add: sum.delta)
  finally show ?thesis .
qed

lemma sum_delta_right:
  fixes f :: "nat \<Rightarrow> 'a::comm_ring_1"
  assumes "j < n"
  shows "(\<Sum>l<n. f l * (if l = j then 1 else 0)) = f j"
proof -
  have "(\<Sum>l<n. f l * (if l = j then 1 else 0)) = (\<Sum>l\<in>{..<n}. if l = j then f l else 0)"
    by (rule sum.cong) auto
  also have "\<dots> = f j" using assms by (simp add: sum.delta)
  finally show ?thesis .
qed

lemma mmul_Identity_left_nth:
  "i < n \<Longrightarrow> j < c \<Longrightarrow> mmul n n c (Identity n) X ! i ! j = X ! i ! j"
  by (simp add: mmul_nth Identity_nth sum_delta_left cong: sum.cong_simp)

lemma mmul_Identity_right_nth:
  "i < r \<Longrightarrow> j < n \<Longrightarrow> mmul r n n X (Identity n) ! i ! j = X ! i ! j"
  by (simp add: mmul_nth Identity_nth sum_delta_right cong: sum.cong_simp)

lemma mmul_assoc:
  "mmul r k c (mmul r l k X Y) Z = mmul r l c X (mmul l k c Y Z)"
proof (rule mat_eqI [of r c])
  fix i j assume ij: "i < r" "j < c"
  have "mmul r k c (mmul r l k X Y) Z ! i ! j =
        (\<Sum>b<k. (\<Sum>a<l. X ! i ! a * Y ! a ! b) * Z ! b ! j)"
    using ij by (simp add: mmul_nth cong: sum.cong_simp)
  also have "\<dots> = (\<Sum>b<k. \<Sum>a<l. X ! i ! a * Y ! a ! b * Z ! b ! j)"
    by (simp add: sum_distrib_right)
  also have "\<dots> = (\<Sum>a<l. \<Sum>b<k. X ! i ! a * Y ! a ! b * Z ! b ! j)"
    by (rule sum.swap)
  also have "\<dots> = (\<Sum>a<l. X ! i ! a * (\<Sum>b<k. Y ! a ! b * Z ! b ! j))"
    by (simp add: sum_distrib_left mult.assoc)
  also have "\<dots> = mmul r l c X (mmul l k c Y Z) ! i ! j"
    using ij by (simp add: mmul_nth cong: sum.cong_simp)
  finally show "mmul r k c (mmul r l k X Y) Z ! i ! j = mmul r l c X (mmul l k c Y Z) ! i ! j" .
qed simp_all

lemma mpow_commute: "mmul n n n X (mpow n X k) = mmul n n n (mpow n X k) X"
proof (induction k)
  case 0
  show ?case
    by (rule mat_eqI [of n n]) (simp_all add: mmul_Identity_left_nth mmul_Identity_right_nth)
next
  case (Suc k)
  have "mmul n n n X (mpow n X (Suc k)) = mmul n n n (mmul n n n X (mpow n X k)) X"
    by (simp add: mmul_assoc)
  also have "\<dots> = mmul n n n (mpow n X (Suc k)) X"
    by (simp add: Suc.IH)
  finally show ?case .
qed

lemma mpow_left_step:
  "mmul n n m X (mmul n n m (mpow n X k) Y) = mmul n n m (mpow n X (Suc k)) Y"
proof -
  have "mmul n n m (mpow n X (Suc k)) Y = mmul n n m (mmul n n n X (mpow n X k)) Y"
    by (simp add: mpow_commute)
  then show ?thesis by (simp add: mmul_assoc)
qed

lemma mpow_right_step:
  "mmul r n n (mmul r n n Y (mpow n X k)) X = mmul r n n Y (mpow n X (Suc k))"
  by (simp add: mmul_assoc)

section \<open>The observability matrix\<close>

lemma computeObservabilityMatrix_fails:
  assumes "2 \<le> n"
  shows "computeObservabilityMatrix n sys Ob = Inl BlockOutOfRange"
proof -
  obtain k where k: "n - 1 = Suc k" using assms by (cases "n - 1") auto
  have n: "0 < n" using assms by simp
  have "\<not> block_ok n (n * n) n n (1 * n) 0" using n by (simp add: block_ok_def)
  then have w: "block_write n (n * n) n n (1 * n) 0 X V = Inl BlockOutOfRange" for X V :: "'a mat"
    by (simp add: block_write_def)
  have ok: "block_ok n (n * n) n n 0 0" using n by (simp add: block_ok_def)
  then have r: "\<exists>Y. block_read n (n * n) n n 0 ((1 - 1) * n) X = Inr Y" for X :: "'a mat"
    by (simp add: block_read_def)
  have l: "ob_loop n A (Suc k) 1 X = Inl BlockOutOfRange" for A X :: "'a mat"
  proof -
    obtain Y where "block_read n (n * n) n n 0 ((1 - 1) * n) X = Inr Y" using r by blast
    then show ?thesis by (simp only: ob_loop.simps w sum.case)
  qed
  show ?thesis
  proof (cases "block_write n (n * n) n n 0 0 Ob (sys_C sys)")
    case (Inl e)
    then show ?thesis using ok by (simp add: block_write_def)
  next
    case (Inr Ob')
    then show ?thesis by (simp only: computeObservabilityMatrix_def sum.case k l)
  qed
qed


section \<open>The Gramian iterations\<close>

lemma is_mat_partial_sum [simp]: "is_mat n n (partial_sum n T K)"
  by (simp add: partial_sum_def)









section \<open>The Gramian iterations in exact arithmetic\<close>










section \<open>Positive semidefiniteness of the Gramian terms\<close>












section \<open>Construction of an LTI system\<close>

text \<open>
  C9 (as amended).  A system built from \<open>A\<close> and \<open>B\<close> alone has \<open>C\<close> the identity and
  \<open>D\<close> zero.  The constructor without arguments sets all four matrices, \<open>C\<close> included,
  to zero.
\<close>

theorem LTISystem_defaults:
  "sys_C (LTISystem_AB n m A B) = Identity n
   \<and> sys_D (LTISystem_AB n m A B) = Zero_mat n m
   \<and> sys_A (LTISystem_AB n m A B) = A
   \<and> sys_B (LTISystem_AB n m A B) = B
   \<and> sys_C (LTISystem_default n m :: 'a::comm_ring_1 LTISystem) = Zero_mat n n
   \<and> sys_D (LTISystem_default n m :: 'a LTISystem) = Zero_mat n m"
  by (simp add: LTISystem_AB_def LTISystem_ABCD_def LTISystem_default_def)

text \<open>
  C9 as stated fails: for state dimension 1 the system built by the constructor without
  arguments has \<open>C = [[0]]\<close>, which is not the identity \<open>[[1]]\<close>.
\<close>

theorem LTISystem_default_C_not_identity:
  "sys_C (LTISystem_default 1 1 :: int LTISystem) = [[0]]
   \<and> (Identity 1 :: int mat) = [[1]]
   \<and> sys_C (LTISystem_default 1 1 :: int LTISystem) \<noteq> Identity 1"
  by (simp add: LTISystem_default_def Zero_mat_def Identity_def mk_mat_def)

section \<open>Unsupported operations\<close>

text \<open>
  C8.  The continuous-time variants of the two Gramian functions, \<open>computeOutput\<close> and
  \<open>getFeedback\<close> return an error on every input: each throws a \<open>std::runtime_error\<close>
  as its first and only action, so no value is produced.
\<close>

theorem unsupported_operations_fail:
  "computeControllabilityGramian CONTINUOUS_TIME n m sys max_iters tolerance =
     Inl (RuntimeError
       ''Computation of controllability Gramian not implemented for continuous-time systems yet.'')
   \<and> computeObservabilityGramian CONTINUOUS_TIME n' sys' max_iters' tolerance' =
     Inl (RuntimeError
       ''Computation of observability Gramian not implemented for continuous-time systems yet.'')
   \<and> computeOutput sys'' state tn control output =
     Inl (RuntimeError ''LTISystem: computeOutput() not ported to manifolds yet.'')
   \<and> getFeedback st = Inl (RuntimeError ''not implemented'')"
  by (simp add: computeControllabilityGramian_def computeObservabilityGramian_def
      computeOutput_def getFeedback_def)

section \<open>Transcription of the problem\<close>

text \<open>
  C3.  For a problem with horizon \<open>N \<ge> 1\<close>, \<open>setProblemImpl\<close> succeeds and the dynamics
  offset that the solver reads is \<open>b\<^sub>i + x\<^bsub>i+1\<^esub> - A\<^sub>i x\<^sub>i - B\<^sub>i u\<^sub>i\<close> at every stage
  \<open>i = 1..N-1\<close>, and \<open>b\<^sub>0 + x\<^sub>1 - B\<^sub>0 u\<^sub>0\<close>, without the term \<open>A\<^sub>0 x\<^sub>0\<close>, at stage 0.
\<close>

theorem transcribed_dynamics_offsets:
  fixes prob :: "('a::comm_ring_1) LQOCProblem"
  assumes "problem_ok prob"
  shows "\<exists>st. setProblemImpl n m uninit_x uninit_u prob st0 = Inr st
     \<and> b_abs prob st 0 =
         Some (vsub n (vadd n (p_b prob ! 0) (p_x prob ! 1))
                 (mat_vec n m (p_B prob ! 0) (p_u prob ! 0)))
     \<and> (\<forall>i. 1 \<le> i \<and> i < nat (K_stages prob) \<longrightarrow>
           b_abs prob st i =
             Some (vsub n (vsub n (vadd n (p_b prob ! i) (p_x prob ! (i + 1)))
                             (mat_vec n n (p_A prob ! i) (p_x prob ! i)))
                     (mat_vec n m (p_B prob ! i) (p_u prob ! i))))"
proof -
  define N where "N = nat (K_stages prob)"
  have K: "1 \<le> K_stages prob" using assms by (rule problem_ok_horizon)
  then have N: "K_stages prob = int N" "1 \<le> N" by (simp_all add: N_def)
  obtain st where st: "setProblemImpl n m uninit_x uninit_u prob st0 = Inr st"
    using setProblemImpl_succeeds [of prob n m uninit_x uninit_u st0] K by auto
  note f = setProblemImpl_fields [OF st N]
  have "b_abs prob st 0 = Some (vsub n (vadd n (p_b prob ! 0) (p_x prob ! 1))
                 (mat_vec n m (p_B prob ! 0) (p_u prob ! 0)))"
    by (simp add: b_abs_def load_vec_def f(6,7))
  moreover have "b_abs prob st i =
             Some (vsub n (vsub n (vadd n (p_b prob ! i) (p_x prob ! (i + 1)))
                             (mat_vec n n (p_A prob ! i) (p_x prob ! i)))
                     (mat_vec n m (p_B prob ! i) (p_u prob ! i)))"
    if "1 \<le> i" "i < N" for i
    using that by (simp add: b_abs_def load_vec_def f(3,8,9))
  ultimately show ?thesis using st by (auto simp: N_def)
qed

theorem transcribed_dynamics_offsets_witness:
  "problem_ok example_problem
   \<and> (\<exists>st. setProblemImpl 2 1 [0, 0] [0] example_problem (HPIPMInterface_new 2 1) = Inr st
        \<and> b_abs example_problem st 0 = Some [3, 2]
        \<and> b_abs example_problem st 1 = Some [0, 0])"
proof -
  have ok: "problem_ok example_problem" by code_simp
  have v0: "vsub 2 (vadd 2 (p_b example_problem ! 0) (p_x example_problem ! 1))
                 (mat_vec 2 1 (p_B example_problem ! 0) (p_u example_problem ! 0)) = [3, 2]"
    by code_simp
  have v1: "vsub 2 (vsub 2 (vadd 2 (p_b example_problem ! 1) (p_x example_problem ! (1 + 1)))
                             (mat_vec 2 2 (p_A example_problem ! 1) (p_x example_problem ! 1)))
                     (mat_vec 2 1 (p_B example_problem ! 1) (p_u example_problem ! 1)) = [0, 0]"
    by code_simp
  have K: "nat (K_stages example_problem) = 2" by (simp add: example_problem_def)
  from transcribed_dynamics_offsets [OF ok, of 2 1 "[0, 0]" "[0]" "HPIPMInterface_new 2 1"]
  obtain st where "setProblemImpl 2 1 [0, 0] [0] example_problem (HPIPMInterface_new 2 1) = Inr st"
    and "b_abs example_problem st 0 = Some [3, 2]"
    and "b_abs example_problem st 1 = Some [0, 0]"
    unfolding v0 K using v1 by auto
  with ok show ?thesis by blast
qed

text \<open>
  C4.  For a problem with horizon \<open>N \<ge> 1\<close>: at every stage \<open>i = 0..N-1\<close> the state
  gradient that the solver reads is \<open>q\<^sub>i - Q\<^sub>i x\<^sub>i - S\<^sub>i\<^sup>T u\<^sub>i\<close> and the transcription computes
  the control gradient \<open>r\<^sub>i - R\<^sub>i u\<^sub>i - S\<^sub>i x\<^sub>i\<close> (in \<open>hrEigen_[i]\<close>); the solver reads this
  control gradient unchanged at the stages \<open>i = 1..N-1\<close>, and at stage 0, and only there,
  it reads the computed value plus \<open>S\<^sub>0 x\<^sub>0\<close>.  The terminal stage has
  \<open>q\<^sub>N - Q\<^sub>N x\<^sub>N\<close> and null pointers for \<open>S\<^sub>N\<close>, \<open>R\<^sub>N\<close> and \<open>r\<^sub>N\<close>.
\<close>

theorem transcribed_gradient_offsets:
  fixes prob :: "('a::comm_ring_1) LQOCProblem"
  assumes "problem_ok prob"
  shows "\<exists>st. setProblemImpl n m uninit_x uninit_u prob st0 = Inr st
     \<and> (\<forall>i. i < nat (K_stages prob) \<longrightarrow>
           q_abs prob st i =
             Some (vsub n (vsub n (p_qv prob ! i) (mat_vec n n (p_Q prob ! i) (p_x prob ! i)))
                     (mat_vec n m (transpose_mat m n (p_P prob ! i)) (p_u prob ! i)))
           \<and> hrEigen st ! i =
               vsub m (vsub m (p_rv prob ! i) (mat_vec m m (p_R prob ! i) (p_u prob ! i)))
                 (mat_vec m n (p_P prob ! i) (p_x prob ! i)))
     \<and> (\<forall>i. 1 \<le> i \<and> i < nat (K_stages prob) \<longrightarrow> r_abs prob st i = Some (hrEigen st ! i))
     \<and> r_abs prob st 0 = Some (vadd m (hrEigen st ! 0) (mat_vec m n (p_P prob ! 0) (p_x prob ! 0)))
     \<and> q_abs prob st (nat (K_stages prob)) =
         Some (vsub n (p_qv prob ! nat (K_stages prob))
                 (mat_vec n n (p_Q prob ! nat (K_stages prob)) (p_x prob ! nat (K_stages prob))))
     \<and> hS st ! nat (K_stages prob) = nullptr
     \<and> hR st ! nat (K_stages prob) = nullptr
     \<and> hr st ! nat (K_stages prob) = nullptr
     \<and> r_abs prob st (nat (K_stages prob)) = None"
proof -
  define N where "N = nat (K_stages prob)"
  have K: "1 \<le> K_stages prob" using assms by (rule problem_ok_horizon)
  then have N: "K_stages prob = int N" "1 \<le> N" by (simp_all add: N_def)
  obtain st where st: "setProblemImpl n m uninit_x uninit_u prob st0 = Inr st"
    using setProblemImpl_succeeds [of prob n m uninit_x uninit_u st0] K by auto
  note f = setProblemImpl_fields [OF st N]
  have q: "q_abs prob st i =
             Some (vsub n (vsub n (p_qv prob ! i) (mat_vec n n (p_Q prob ! i) (p_x prob ! i)))
                     (mat_vec n m (transpose_mat m n (p_P prob ! i)) (p_u prob ! i)))"
    if "i < N" for i
    using that by (simp add: q_abs_def load_vec_def f(4,10,11))
  have e: "hrEigen st ! i =
               vsub m (vsub m (p_rv prob ! i) (mat_vec m m (p_R prob ! i) (p_u prob ! i)))
                 (mat_vec m n (p_P prob ! i) (p_x prob ! i))"
    if "i < N" for i
    using that by (rule f)
  have r: "r_abs prob st i = Some (hrEigen st ! i)" if "1 \<le> i" "i < N" for i
    using that by (simp add: r_abs_def load_vec_def f(5,15))
  have r0: "r_abs prob st 0 = Some (vadd m (hrEigen st ! 0) (mat_vec m n (p_P prob ! 0) (p_x prob ! 0)))"
    using N(2) by (simp add: r_abs_def load_vec_def f(14) f(19) f(13))
  have qN: "q_abs prob st N =
         Some (vsub n (p_qv prob ! N) (mat_vec n n (p_Q prob ! N) (p_x prob ! N)))"
    by (simp add: q_abs_def load_vec_def f(4,10,12))
  have rN: "r_abs prob st N = None"
    by (simp add: r_abs_def load_vec_def f(16))
  show ?thesis
    unfolding N_def [symmetric] using st q e r r0 qN rN f(16,17,18) by blast
qed

theorem transcribed_gradient_offsets_witness:
  "problem_ok example_problem
   \<and> (\<exists>st. setProblemImpl 2 1 [0, 0] [0] example_problem (HPIPMInterface_new 2 1) = Inr st
        \<and> q_abs example_problem st 0 = Some [- 4, - 3]
        \<and> q_abs example_problem st 1 = Some [- 6, - 7]
        \<and> q_abs example_problem st 2 = Some [- 5, - 4]
        \<and> hrEigen st ! 0 = [- 3]
        \<and> r_abs example_problem st 0 = Some [- 2]
        \<and> r_abs example_problem st 1 = Some [- 2]
        \<and> r_abs example_problem st 2 = None)"
proof -
  have ok: "problem_ok example_problem" by code_simp
  have K: "nat (K_stages example_problem) = 2" by (simp add: example_problem_def)
  have q0: "vsub 2 (vsub 2 (p_qv example_problem ! 0)
              (mat_vec 2 2 (p_Q example_problem ! 0) (p_x example_problem ! 0)))
              (mat_vec 2 1 (transpose_mat 1 2 (p_P example_problem ! 0)) (p_u example_problem ! 0))
            = [- 4, - 3]" by code_simp
  have q1: "vsub 2 (vsub 2 (p_qv example_problem ! 1)
              (mat_vec 2 2 (p_Q example_problem ! 1) (p_x example_problem ! 1)))
              (mat_vec 2 1 (transpose_mat 1 2 (p_P example_problem ! 1)) (p_u example_problem ! 1))
            = [- 6, - 7]" by code_simp
  have q2: "vsub 2 (p_qv example_problem ! 2)
              (mat_vec 2 2 (p_Q example_problem ! 2) (p_x example_problem ! 2)) = [- 5, - 4]"
    by code_simp
  have e0: "vsub 1 (vsub 1 (p_rv example_problem ! 0)
              (mat_vec 1 1 (p_R example_problem ! 0) (p_u example_problem ! 0)))
              (mat_vec 1 2 (p_P example_problem ! 0) (p_x example_problem ! 0)) = [- 3]"
    by code_simp
  have e1: "vsub 1 (vsub 1 (p_rv example_problem ! 1)
              (mat_vec 1 1 (p_R example_problem ! 1) (p_u example_problem ! 1)))
              (mat_vec 1 2 (p_P example_problem ! 1) (p_x example_problem ! 1)) = [- 2]"
    by code_simp
  have c0: "vadd 1 [- 3] (mat_vec 1 2 (p_P example_problem ! 0) (p_x example_problem ! 0)) = [- 2]"
    by code_simp
  from transcribed_gradient_offsets [OF ok, of 2 1 "[0, 0]" "[0]" "HPIPMInterface_new 2 1"]
  obtain st where st: "setProblemImpl 2 1 [0, 0] [0] example_problem (HPIPMInterface_new 2 1) = Inr st"
    and a: "\<forall>i. i < 2 \<longrightarrow>
           q_abs example_problem st i =
             Some (vsub 2 (vsub 2 (p_qv example_problem ! i)
                     (mat_vec 2 2 (p_Q example_problem ! i) (p_x example_problem ! i)))
                     (mat_vec 2 1 (transpose_mat 1 2 (p_P example_problem ! i)) (p_u example_problem ! i)))
           \<and> hrEigen st ! i =
               vsub 1 (vsub 1 (p_rv example_problem ! i)
                 (mat_vec 1 1 (p_R example_problem ! i) (p_u example_problem ! i)))
                 (mat_vec 1 2 (p_P example_problem ! i) (p_x example_problem ! i))"
    and b: "\<forall>i. 1 \<le> i \<and> i < 2 \<longrightarrow> r_abs example_problem st i = Some (hrEigen st ! i)"
    and c: "r_abs example_problem st 0 =
              Some (vadd 1 (hrEigen st ! 0) (mat_vec 1 2 (p_P example_problem ! 0) (p_x example_problem ! 0)))"
    and d: "q_abs example_problem st 2 =
         Some (vsub 2 (p_qv example_problem ! 2)
                 (mat_vec 2 2 (p_Q example_problem ! 2) (p_x example_problem ! 2)))"
    and e: "r_abs example_problem st 2 = None"
    unfolding K by blast
  have a0: "q_abs example_problem st 0 = Some [- 4, - 3]" "hrEigen st ! 0 = [- 3]"
    using a [rule_format, of 0] q0 e0 by simp_all
  have a1: "q_abs example_problem st 1 = Some [- 6, - 7]" "hrEigen st ! 1 = [- 2]"
    using a [rule_format, of 1] q1 e1 by simp_all
  have "r_abs example_problem st 1 = Some [- 2]"
    using b [rule_format, of 1] a1 by simp
  moreover have "r_abs example_problem st 0 = Some [- 2]"
    using c a0 c0 by simp
  moreover have "q_abs example_problem st 2 = Some [- 5, - 4]"
    using d q2 by simp
  ultimately show ?thesis using ok st a0 a1 e by blast
qed




section \<open>Extraction of the solution\<close>

text \<open>
  C7.  Once a problem with a horizon \<open>N \<ge> 0\<close> has been set, whatever solution the solver
  has produced: the state trajectory returned by \<open>getSolutionState\<close> has \<open>N + 1\<close> entries
  and its entry 0 is the entry 0 of the problem's nominal states (the supplied \<open>x0\<close>), and
  the control trajectory returned by \<open>getSolutionControl\<close> has exactly \<open>N\<close> entries, so
  none for the terminal stage.  (\<open>solve\<close> itself changes none of the members of the model;
  its result is the arbitrary \<open>sol\<close>.)
\<close>

theorem solution_trajectories:
  fixes prob :: "('a::comm_ring_1) LQOCProblem"
  assumes "0 \<le> K_stages prob"
  shows "\<exists>st. setProblemImpl n m uninit_x uninit_u prob st0 = Inr st
     \<and> (\<forall>sol. fst (getSolutionState prob sol st) ! 0 = p_x prob ! 0
           \<and> length (fst (getSolutionState prob sol st)) = nat (K_stages prob) + 1
           \<and> length (fst (getSolutionControl sol st)) = nat (K_stages prob)
           \<and> length (fst (getSolutionControl sol (snd (getSolutionState prob sol st))))
               = nat (K_stages prob))"
proof -
  obtain st where st: "setProblemImpl n m uninit_x uninit_u prob st0 = Inr st"
    using setProblemImpl_succeeds [OF assms] by blast
  obtain st1 where
    1: "changeNumberOfStages n m uninit_x uninit_u (K_stages prob) st0 = Inr st1" and
    2: "setupHPIPM n m (p_x prob) (p_u prob) (p_A prob) (p_B prob) (p_b prob) (p_P prob)
       (p_qv prob) (p_Q prob) (p_rv prob) (p_R prob) st1 = Inr st"
    using st by (auto simp: setProblemImpl_def split: sum.splits)
  have len: "length (hx st) = nat (K_stages prob) + 1" "length (hu st) = nat (K_stages prob)"
    using changeNumberOfStages_result [OF 1] setupHPIPM_keeps_solution [OF 2] by simp_all
  have "fst (getSolutionState prob sol st) ! 0 = p_x prob ! 0
           \<and> length (fst (getSolutionState prob sol st)) = nat (K_stages prob) + 1
           \<and> length (fst (getSolutionControl sol st)) = nat (K_stages prob)
           \<and> length (fst (getSolutionControl sol (snd (getSolutionState prob sol st))))
               = nat (K_stages prob)" for sol
    by (simp add: getSolutionState_def getSolutionControl_def Let_def len)
  then show ?thesis using st by blast
qed

theorem solution_trajectories_witness:
  "0 \<le> K_stages example_problem
   \<and> (\<exists>st. setProblemImpl 2 1 [0, 0] [0] example_problem (HPIPMInterface_new 2 1) = Inr st
        \<and> fst (getSolutionState example_problem
                 \<lparr> sol_u = (\<lambda>i. [5]), sol_x = (\<lambda>i. [6, 7]) \<rparr> st) ! 0 = [1, 2]
        \<and> length (fst (getSolutionState example_problem
                 \<lparr> sol_u = (\<lambda>i. [5]), sol_x = (\<lambda>i. [6, 7]) \<rparr> st)) = 3
        \<and> length (fst (getSolutionControl \<lparr> sol_u = (\<lambda>i. [5]), sol_x = (\<lambda>i. [6, 7]) \<rparr> st)) = 2)"
proof -
  have K: "0 \<le> K_stages example_problem" "nat (K_stages example_problem) = 2"
    "p_x example_problem ! 0 = [1, 2]"
    by (simp_all add: example_problem_def)
  from solution_trajectories [OF K(1), of 2 1 "[0, 0]" "[0]" "HPIPMInterface_new 2 1"]
  obtain st where st: "setProblemImpl 2 1 [0, 0] [0] example_problem (HPIPMInterface_new 2 1) = Inr st"
    and a: "\<And>sol. fst (getSolutionState example_problem sol st) ! 0 = [1, 2]
           \<and> length (fst (getSolutionState example_problem sol st)) = 3
           \<and> length (fst (getSolutionControl sol st)) = 2"
    unfolding K by auto
  show ?thesis using K(1) st a by blast
qed

section \<open>Controllability and observability\<close>

text \<open>
  C6 at a failing input.  For state and control dimension 2, \<open>A = 0\<close> and \<open>B\<close> the identity,
  the block matrix \<open>[B, AB]\<close> is the matrix in the last line, which has rank 2, so that
  \<open>isControllable\<close> should return true.  The member \<open>computeControllabilityMatrix\<close> is
  ill-formed when it is instantiated (its block expressions lack the keyword
  \<open>template\<close>): it produces no matrix and \<open>isControllable\<close> returns nothing.
\<close>

theorem controllability_member_ill_formed:
  "computeControllabilityMatrix 2 2
       (LTISystem_AB 2 2 (Zero_mat 2 2) (Identity 2) :: int LTISystem)
       [[9, 9, 9, 9], [9, 9, 9, 9]] = Inl IllFormed
   \<and> isControllable (\<lambda>X. 2) 2 2
       (LTISystem_AB 2 2 (Zero_mat 2 2) (Identity 2) :: int LTISystem)
       [[9, 9, 9, 9], [9, 9, 9, 9]] = Inl IllFormed
   \<and> controllability_blocks 2 2 (Zero_mat 2 2) (Identity 2 :: int mat)
       = [[1, 0, 0, 0], [0, 1, 0, 0]]"
  by code_simp

text \<open>
  C2 at a failing input.  For state dimension 2 the first pass of the loop of
  \<open>computeObservabilityMatrix\<close> addresses the block at row \<open>1 * 2\<close> of a matrix that has only
  2 rows (and \<open>2 * 2\<close> columns): the block leaves the matrix, no stacked matrix is produced,
  and \<open>isObservable\<close> has no matrix to take the rank of.  The stack of the blocks \<open>C A\<^bsup>i\<^esup>\<close>
  that the claim describes is the \<open>4 \<times> 2\<close> matrix in the last line.
\<close>

theorem observability_matrix_block_out_of_range:
  "computeObservabilityMatrix 2 example_system [[9, 9, 9, 9], [9, 9, 9, 9]] = Inl BlockOutOfRange
   \<and> isObservable (\<lambda>X. 2) 2 example_system [[9, 9, 9, 9], [9, 9, 9, 9]] = Inl BlockOutOfRange
   \<and> observability_stack 2 (sys_A example_system) (sys_C example_system)
       = [[1, 0], [0, 1], [1, 1], [0, 1]]"
  by code_simp

section \<open>Gramians\<close>







end
